theory Spec2Isabelle
  imports Main
begin

section \<open>Errors, remote calls and the execution trace\<close>

text \<open>
  The remote object store is reached through a client library that is not part of the
  repository. An error it returns is a value; \<open>errors.IsNotFound\<close> is the only
  inspection the source makes of one.
\<close>

datatype api_error = NotFound | AlreadyExists | Conflict | OtherError string

definition IsNotFound :: "api_error \<Rightarrow> bool" where
  "IsNotFound e = (e = NotFound)"

text \<open>
  Go's \<open>int32\<close> fields are only compared and printed by the source, never added to,
  so they are integers here. A \<open>time.Time\<close> is a number of nanoseconds since a fixed
  epoch, a \<open>time.Duration\<close> a number of nanoseconds (an \<open>int64\<close> in Go).
\<close>

type_synonym int32 = int
type_synonym Time = int
type_synonym Duration = int

definition Minute :: Duration where
  "Minute = 60 * 1000000000"

definition maxDuration :: Duration where
  "maxDuration = 2 ^ 63 - 1"

definition minDuration :: Duration where
  "minDuration = - (2 ^ 63)"

text \<open>\<open>t.Sub(u)\<close> saturates at the largest and the smallest duration.\<close>

definition time_Sub :: "Time \<Rightarrow> Time \<Rightarrow> Duration" where
  "time_Sub t u =
     (let d = t - u in
      if d > maxDuration then maxDuration
      else if d < minDuration then minDuration
      else d)"

text \<open>\<open>time.Since(t)\<close> is \<open>time.Now().Sub(t)\<close>; the clock reading is the argument \<open>now\<close>.\<close>

definition time_Since :: "Time \<Rightarrow> Time \<Rightarrow> Duration" where
  "time_Since now t = time_Sub now t"

section \<open>The pod healer (main.go)\<close>

subsection \<open>Pods\<close>

text \<open>
  \<open>PodPhase\<close>, \<open>PodConditionType\<close> and \<open>ConditionStatus\<close> are string types in the
  API; the constants below are the ones the source names.
\<close>

abbreviation PodPending :: string where "PodPending \<equiv> ''Pending''"
abbreviation PodRunning :: string where "PodRunning \<equiv> ''Running''"
abbreviation PodReady :: string where "PodReady \<equiv> ''Ready''"
abbreviation ConditionTrue :: string where "ConditionTrue \<equiv> ''True''"
abbreviation ConditionFalse :: string where "ConditionFalse \<equiv> ''False''"

text \<open>\<open>cs_Waiting\<close> is \<open>State.Waiting\<close> (a pointer) with its \<open>Reason\<close>.\<close>

record ContainerStatus =
  cs_Name :: string
  cs_RestartCount :: int32
  cs_Waiting :: "string option"

record PodCondition =
  pc_Type :: string
  pc_Status :: string
  pc_LastTransitionTime :: Time

text \<open>\<open>pod_Annotations\<close> is a Go map, \<open>None\<close> when it is nil.\<close>

record Pod =
  pod_Namespace :: string
  pod_Name :: string
  pod_Annotations :: "(string \<rightharpoonup> string) option"
  pod_CreationTimestamp :: Time
  pod_Phase :: string
  pod_ContainerStatuses :: "ContainerStatus list"
  pod_Conditions :: "PodCondition list"

subsection \<open>Log lines and the trace\<close>

text \<open>
  Each \<open>return true\<close> of \<open>isPodStuck\<close> follows a log line of its own; the line tells
  which rule fired.
\<close>

datatype stuck_line =
    StuckInPending Duration
  | CrashLoopRestarts int32
  | CrashLoopContainer string
  | NotReadyFor Duration

datatype klog_line =
    InfoStuck string string stuck_line
  | InfoAttempting string string
  | InfoCustomRestart string string
  | InfoCustomDelete string string
  | InfoSkipping string string
  | ErrorFailedToHeal string string api_error
  | InfoHealed string string
  | ErrorHealing string string api_error

datatype pod_call = PodsDelete string string

datatype healer_event = Klog klog_line | PodCall pod_call

text \<open>
  The clientset: the one call the healer makes, on a remote store of any type \<open>'w\<close>.
  It returns the error (or none) and the store after the call.
\<close>

record 'w PodHealer =
  pods_Delete :: "string \<Rightarrow> string \<Rightarrow> 'w \<Rightarrow> api_error option \<times> 'w"

record 'w healer_state =
  world :: 'w
  trace :: "healer_event list"

definition klog :: "klog_line \<Rightarrow> 'w healer_state \<Rightarrow> 'w healer_state" where
  "klog l s = s\<lparr>trace := trace s @ [Klog l]\<rparr>"

fun pod_calls :: "healer_event list \<Rightarrow> pod_call list" where
  "pod_calls [] = []"
| "pod_calls (Klog l # es) = pod_calls es"
| "pod_calls (PodCall c # es) = c # pod_calls es"

subsection \<open>isPodReady and isPodStuck\<close>

fun isPodReady_loop :: "PodCondition list \<Rightarrow> bool" where
  "isPodReady_loop [] = False"
| "isPodReady_loop (condition # rest) =
     (if pc_Type condition = PodReady \<and> pc_Status condition = ConditionTrue then True
      else isPodReady_loop rest)"

definition isPodReady :: "Pod \<Rightarrow> bool" where
  "isPodReady pod = isPodReady_loop (pod_Conditions pod)"

text \<open>The loop over the container statuses (lines 68 to 83): the line logged when it returns true.\<close>

fun crashLoop_loop :: "ContainerStatus list \<Rightarrow> stuck_line option" where
  "crashLoop_loop [] = None"
| "crashLoop_loop (containerStatus # rest) =
     (if cs_RestartCount containerStatus > 10
      then Some (CrashLoopRestarts (cs_RestartCount containerStatus))
      else if cs_Waiting containerStatus = Some ''CrashLoopBackOff''
      then Some (CrashLoopContainer (cs_Name containerStatus))
      else crashLoop_loop rest)"

text \<open>The loop over the conditions (lines 88 to 96).\<close>

fun notReady_loop :: "Time \<Rightarrow> PodCondition list \<Rightarrow> stuck_line option" where
  "notReady_loop now [] = None"
| "notReady_loop now (condition # rest) =
     (if pc_Type condition = PodReady \<and> pc_Status condition = ConditionFalse
         \<and> time_Since now (pc_LastTransitionTime condition) > 10 * Minute
      then Some (NotReadyFor (time_Since now (pc_LastTransitionTime condition)))
      else notReady_loop now rest)"

text \<open>
  \<open>isPodStuck_line\<close> is the body of \<open>isPodStuck\<close>: \<open>Some\<close> of the line logged where the
  source returns true, \<open>None\<close> where it returns false.
\<close>

definition isPodStuck_line :: "Time \<Rightarrow> Pod \<Rightarrow> stuck_line option" where
  "isPodStuck_line now pod =
     (if pod_Phase pod = PodPending
         \<and> time_Since now (pod_CreationTimestamp pod) > 15 * Minute
      then Some (StuckInPending (time_Since now (pod_CreationTimestamp pod)))
      else
        (case (if pod_Phase pod = PodRunning
               then crashLoop_loop (pod_ContainerStatuses pod) else None) of
           Some l \<Rightarrow> Some l
         | None \<Rightarrow>
             if \<not> isPodReady pod then notReady_loop now (pod_Conditions pod) else None))"

definition isPodStuck :: "Time \<Rightarrow> Pod \<Rightarrow> bool" where
  "isPodStuck now pod = (isPodStuck_line now pod \<noteq> None)"

text \<open>The verdict names the return site of \<open>isPodStuck\<close>.\<close>

datatype Verdict = Healthy | StuckPending | StuckCrashLoop | StuckNotReady

fun verdict_of :: "stuck_line option \<Rightarrow> Verdict" where
  "verdict_of None = Healthy"
| "verdict_of (Some (StuckInPending d)) = StuckPending"
| "verdict_of (Some (CrashLoopRestarts n)) = StuckCrashLoop"
| "verdict_of (Some (CrashLoopContainer c)) = StuckCrashLoop"
| "verdict_of (Some (NotReadyFor d)) = StuckNotReady"

definition classify :: "Time \<Rightarrow> Pod \<Rightarrow> Verdict" where
  "classify now pod = verdict_of (isPodStuck_line now pod)"

subsection \<open>healPod and handlePod\<close>

abbreviation action_key :: string where
  "action_key \<equiv> ''healing.kubernetes.io/action''"

abbreviation ignore_key :: string where
  "ignore_key \<equiv> ''healing.kubernetes.io/ignore''"

text \<open>
  The annotation switch of \<open>healPod\<close> (lines 115 to 127): the state after its log line,
  and whether the function returns nil there.
\<close>

definition action_switch :: "Pod \<Rightarrow> 'w healer_state \<Rightarrow> bool \<times> 'w healer_state" where
  "action_switch pod s =
     (case pod_Annotations pod of
        None \<Rightarrow> (False, s)
      | Some annotations \<Rightarrow>
          (case annotations action_key of
             None \<Rightarrow> (False, s)
           | Some healingAction \<Rightarrow>
               if healingAction = ''restart''
               then (False, klog (InfoCustomRestart (pod_Namespace pod) (pod_Name pod)) s)
               else if healingAction = ''delete''
               then (False, klog (InfoCustomDelete (pod_Namespace pod) (pod_Name pod)) s)
               else if healingAction = ''ignore''
               then (True, klog (InfoSkipping (pod_Namespace pod) (pod_Name pod)) s)
               else (False, s)))"

text \<open>The delete call and what follows it (lines 130 to 142).\<close>

definition delete_pod :: "'w PodHealer \<Rightarrow> Pod \<Rightarrow> 'w healer_state \<Rightarrow> api_error option \<times> 'w healer_state" where
  "delete_pod h pod s =
     (case pods_Delete h (pod_Namespace pod) (pod_Name pod) (world s) of
        (err, w) \<Rightarrow>
          (let s1 = s\<lparr>world := w,
                      trace := trace s @ [PodCall (PodsDelete (pod_Namespace pod) (pod_Name pod))]\<rparr>
           in case err of
                Some e \<Rightarrow> (Some e, klog (ErrorFailedToHeal (pod_Namespace pod) (pod_Name pod) e) s1)
              | None \<Rightarrow> (None, klog (InfoHealed (pod_Namespace pod) (pod_Name pod)) s1)))"

definition healPod :: "'w PodHealer \<Rightarrow> Pod \<Rightarrow> 'w healer_state \<Rightarrow> api_error option \<times> 'w healer_state" where
  "healPod h pod s =
     (case action_switch pod (klog (InfoAttempting (pod_Namespace pod) (pod_Name pod)) s) of
        (True, s1) \<Rightarrow> (None, s1)
      | (False, s1) \<Rightarrow> delete_pod h pod s1)"

definition has_ignore_annotation :: "Pod \<Rightarrow> bool" where
  "has_ignore_annotation pod =
     (case pod_Annotations pod of
        None \<Rightarrow> False
      | Some annotations \<Rightarrow> annotations ignore_key \<noteq> None)"

definition handlePod :: "'w PodHealer \<Rightarrow> Time \<Rightarrow> Pod \<Rightarrow> 'w healer_state \<Rightarrow> 'w healer_state" where
  "handlePod h now pod s =
     (if pod_Namespace pod = ''kube-system'' then s
      else if has_ignore_annotation pod then s
      else
        (case isPodStuck_line now pod of
           None \<Rightarrow> s
         | Some l \<Rightarrow>
             (case healPod h pod (klog (InfoStuck (pod_Namespace pod) (pod_Name pod) l) s) of
                (Some err, s1) \<Rightarrow> klog (ErrorHealing (pod_Namespace pod) (pod_Name pod) err) s1
              | (None, s1) \<Rightarrow> s1)))"

text \<open>
  An in-memory store of pods, keyed by namespace and name, for running the healer:
  deleting a pod that is there removes it, deleting one that is not answers not-found.
\<close>

definition store_healer :: "((string \<times> string) set) PodHealer" where
  "store_healer =
     \<lparr>pods_Delete = (\<lambda>ns name pods.
        if (ns, name) \<in> pods then (None, pods - {(ns, name)}) else (Some NotFound, pods))\<rparr>"

text \<open>Pods to run the healer on.\<close>

definition pending_not_ready_pod :: Pod where
  "pending_not_ready_pod =
     \<lparr>pod_Namespace = ''default'', pod_Name = ''web-1'', pod_Annotations = None,
      pod_CreationTimestamp = 0, pod_Phase = PodPending, pod_ContainerStatuses = [],
      pod_Conditions =
        [\<lparr>pc_Type = PodReady, pc_Status = ConditionFalse, pc_LastTransitionTime = Minute\<rparr>]\<rparr>"

definition crashing_pod :: "string \<Rightarrow> (string \<rightharpoonup> string) option \<Rightarrow> Pod" where
  "crashing_pod ns annotations =
     \<lparr>pod_Namespace = ns, pod_Name = ''web-2'', pod_Annotations = annotations,
      pod_CreationTimestamp = 0, pod_Phase = PodRunning,
      pod_ContainerStatuses =
        [\<lparr>cs_Name = ''nginx'', cs_RestartCount = 11, cs_Waiting = None\<rparr>],
      pod_Conditions = []\<rparr>"

section \<open>The NginxDeployment reconciler (the controller package)\<close>

subsection \<open>The parent resource (api/v1/nginxdeployment_types.go)\<close>

record NginxDeploymentSpec =
  Replicas :: int32
  Port :: int32
  Image :: string

record NginxDeploymentStatus =
  AvailableReplicas :: int32
  Status :: string

record NginxDeployment =
  nd_Namespace :: string
  nd_Name :: string
  nd_UID :: string
  nd_Spec :: NginxDeploymentSpec
  nd_Status :: NginxDeploymentStatus

subsection \<open>The children\<close>

text \<open>\<open>types.NamespacedName\<close>: the namespace, then the name.\<close>

type_synonym NamespacedName = "string \<times> string"

record OwnerReference =
  or_Kind :: string
  or_Name :: string
  or_UID :: string
  or_Controller :: bool
  or_BlockOwnerDeletion :: bool

record Probe =
  pr_Path :: string
  pr_Port :: int32
  pr_InitialDelaySeconds :: int32
  pr_TimeoutSeconds :: int32

record Container =
  c_Name :: string
  c_Image :: string
  c_Ports :: "int32 list"
  c_LivenessProbe :: "Probe option"
  c_ReadinessProbe :: "Probe option"

text \<open>
  \<open>ds_Replicas\<close> is a pointer in Go (\<open>None\<close> is nil). The label maps of the source
  have one key and are lists of pairs here.
\<close>

record DeploymentSpec =
  ds_Replicas :: "int32 option"
  ds_MatchLabels :: "(string \<times> string) list"
  ds_TemplateLabels :: "(string \<times> string) list"
  ds_Containers :: "Container list"

record Deployment =
  d_Namespace :: string
  d_Name :: string
  d_OwnerReferences :: "OwnerReference list"
  d_Spec :: DeploymentSpec
  d_AvailableReplicas :: int32

record ServicePort =
  sp_Port :: int32
  sp_TargetPort :: int32

record Service =
  svc_Namespace :: string
  svc_Name :: string
  svc_OwnerReferences :: "OwnerReference list"
  svc_Selector :: "(string \<times> string) list"
  svc_Ports :: "ServicePort list"
  svc_Type :: string

subsection \<open>The client, the calls and the trace\<close>

text \<open>
  The controller-runtime client on a remote store of any type \<open>'w\<close>. A read answers
  an error or the object; a write answers an error (or none) and the store after it.
\<close>

record 'w Client =
  Get_NginxDeployment :: "NamespacedName \<Rightarrow> 'w \<Rightarrow> api_error + NginxDeployment"
  Get_Deployment :: "NamespacedName \<Rightarrow> 'w \<Rightarrow> api_error + Deployment"
  Get_Service :: "NamespacedName \<Rightarrow> 'w \<Rightarrow> api_error + Service"
  Create_Deployment :: "Deployment \<Rightarrow> 'w \<Rightarrow> api_error option \<times> 'w"
  Update_Deployment :: "Deployment \<Rightarrow> 'w \<Rightarrow> api_error option \<times> 'w"
  Create_Service :: "Service \<Rightarrow> 'w \<Rightarrow> api_error option \<times> 'w"
  Status_Update :: "NginxDeployment \<Rightarrow> 'w \<Rightarrow> api_error option \<times> 'w"

text \<open>\<open>Scheme\<close>: the kinds registered with the runtime scheme.\<close>

record 'w NginxDeploymentReconciler =
  Client :: "'w Client"
  Scheme :: "string list"

datatype ctrl_call =
    GetNginxDeployment NamespacedName
  | GetDeployment NamespacedName
  | GetService NamespacedName
  | CreateDeployment Deployment
  | UpdateDeployment Deployment
  | CreateService Service
  | StatusUpdate NginxDeployment

fun is_mutating :: "ctrl_call \<Rightarrow> bool" where
  "is_mutating (GetNginxDeployment k) = False"
| "is_mutating (GetDeployment k) = False"
| "is_mutating (GetService k) = False"
| "is_mutating (CreateDeployment d) = True"
| "is_mutating (UpdateDeployment d) = True"
| "is_mutating (CreateService sv) = True"
| "is_mutating (StatusUpdate nd) = True"

datatype ctrl_log =
    InfoResourceNotFound
  | ErrorFailedToGet api_error
  | ErrorReconcileDeployment api_error
  | ErrorReconcileService api_error
  | ErrorUpdateStatus api_error
  | InfoReconciled
  | InfoCreatingDeployment string
  | InfoUpdatingDeployment string
  | InfoCreatingService string

datatype ctrl_event = Logr ctrl_log | Call ctrl_call

record 'w ctrl_state =
  store :: 'w
  events :: "ctrl_event list"

definition logr :: "ctrl_log \<Rightarrow> 'w ctrl_state \<Rightarrow> 'w ctrl_state" where
  "logr l s = s\<lparr>events := events s @ [Logr l]\<rparr>"

definition called :: "ctrl_call \<Rightarrow> 'w ctrl_state \<Rightarrow> 'w ctrl_state" where
  "called c s = s\<lparr>events := events s @ [Call c]\<rparr>"

text \<open>A write: the call is recorded and the store replaced by the one the client answers.\<close>

definition write_call :: "ctrl_call \<Rightarrow> ('w \<Rightarrow> api_error option \<times> 'w) \<Rightarrow> 'w ctrl_state
    \<Rightarrow> api_error option \<times> 'w ctrl_state" where
  "write_call c f s =
     (case f (store s) of
        (err, w) \<Rightarrow> (err, s\<lparr>store := w, events := events s @ [Call c]\<rparr>))"

fun calls :: "ctrl_event list \<Rightarrow> ctrl_call list" where
  "calls [] = []"
| "calls (Logr l # es) = calls es"
| "calls (Call c # es) = c # calls es"

text \<open>
  How a function of the reconciler ends: it returns nil, it returns an error, or it
  panics (a nil pointer dereference or an index out of range).
\<close>

datatype outcome = Nil | Err api_error | Panic

fun outcome_of :: "api_error option \<Rightarrow> outcome" where
  "outcome_of None = Nil"
| "outcome_of (Some e) = Err e"

subsection \<open>Printing an integer (the verb \<open>%d\<close> of \<open>fmt.Sprintf\<close>)\<close>

definition digit_char :: "nat \<Rightarrow> char" where
  "digit_char d = ''0123456789'' ! d"

function show_nat :: "nat \<Rightarrow> string" where
  "show_nat n = (if n < 10 then [digit_char n] else show_nat (n div 10) @ [digit_char (n mod 10)])"
  by pat_completeness auto
termination
  by (relation "measure id") auto

declare show_nat.simps [simp del]

definition show_int :: "int \<Rightarrow> string" where
  "show_int i = (if i < 0 then CHR ''-'' # show_nat (nat (- i)) else show_nat (nat i))"

subsection \<open>The desired children\<close>

text \<open>The defaults of \<open>Reconcile\<close> (lines 48 to 53), set on the fetched copy of the parent.\<close>

definition set_defaults :: "NginxDeployment \<Rightarrow> NginxDeployment" where
  "set_defaults nginxDeploy =
     (let spec1 = (if Image (nd_Spec nginxDeploy) = ''''
                   then (nd_Spec nginxDeploy)\<lparr>Image := ''nginx:latest''\<rparr>
                   else nd_Spec nginxDeploy);
          spec2 = (if Port spec1 = 0 then spec1\<lparr>Port := 80\<rparr> else spec1)
      in nginxDeploy\<lparr>nd_Spec := spec2\<rparr>)"

text \<open>The Deployment built by \<open>reconcileDeployment\<close> (lines 80 to 131), before the owner is set.\<close>

definition desired_deployment :: "NginxDeployment \<Rightarrow> Deployment" where
  "desired_deployment nginxDeploy =
     (let targetPort = Port (nd_Spec nginxDeploy) in
      \<lparr>d_Namespace = nd_Namespace nginxDeploy,
       d_Name = nd_Name nginxDeploy @ ''-deployment'',
       d_OwnerReferences = [],
       d_Spec =
         \<lparr>ds_Replicas = Some (Replicas (nd_Spec nginxDeploy)),
          ds_MatchLabels = [(''app'', nd_Name nginxDeploy)],
          ds_TemplateLabels = [(''app'', nd_Name nginxDeploy)],
          ds_Containers =
            [\<lparr>c_Name = ''nginx'',
              c_Image = Image (nd_Spec nginxDeploy),
              c_Ports = [Port (nd_Spec nginxDeploy)],
              c_LivenessProbe =
                Some \<lparr>pr_Path = ''/'', pr_Port = targetPort,
                      pr_InitialDelaySeconds = 15, pr_TimeoutSeconds = 5\<rparr>,
              c_ReadinessProbe =
                Some \<lparr>pr_Path = ''/'', pr_Port = targetPort,
                      pr_InitialDelaySeconds = 5, pr_TimeoutSeconds = 5\<rparr>\<rparr>]\<rparr>,
       d_AvailableReplicas = 0\<rparr>)"

text \<open>The Service built by \<open>reconcileService\<close> (lines 167 to 184), before the owner is set.\<close>

definition desired_service :: "NginxDeployment \<Rightarrow> Service" where
  "desired_service nginxDeploy =
     (let targetPort = Port (nd_Spec nginxDeploy) in
      \<lparr>svc_Namespace = nd_Namespace nginxDeploy,
       svc_Name = nd_Name nginxDeploy @ ''-service'',
       svc_OwnerReferences = [],
       svc_Selector = [(''app'', nd_Name nginxDeploy)],
       svc_Ports = [\<lparr>sp_Port = Port (nd_Spec nginxDeploy), sp_TargetPort = targetPort\<rparr>],
       svc_Type = ''ClusterIP''\<rparr>)"

text \<open>
  \<open>ctrl.SetControllerReference\<close> on a child just built in the owner's namespace: it fails
  when the owner's kind is not registered with the scheme, and otherwise answers the
  owner reference it sets.
\<close>

definition SetControllerReference :: "NginxDeployment \<Rightarrow> string list \<Rightarrow> api_error + OwnerReference list" where
  "SetControllerReference owner scheme =
     (if ''NginxDeployment'' \<in> set scheme
      then Inr [\<lparr>or_Kind = ''NginxDeployment'', or_Name = nd_Name owner, or_UID = nd_UID owner,
                 or_Controller = True, or_BlockOwnerDeletion = True\<rparr>]
      else Inl (OtherError ''no kind is registered for the type NginxDeployment''))"

subsection \<open>reconcileDeployment\<close>

text \<open>
  The condition of lines 153 and 154, read left to right: \<open>None\<close> is a panic. The image
  of the first container is read only when the replica counts are equal.
\<close>

definition needs_update :: "Deployment \<Rightarrow> Deployment \<Rightarrow> bool option" where
  "needs_update foundDeploy deployment =
     (case ds_Replicas (d_Spec foundDeploy) of
        None \<Rightarrow> None
      | Some foundReplicas \<Rightarrow>
          (case ds_Replicas (d_Spec deployment) of
             None \<Rightarrow> None
           | Some replicas \<Rightarrow>
               if foundReplicas \<noteq> replicas then Some True
               else
                 (case ds_Containers (d_Spec foundDeploy) of
                    [] \<Rightarrow> None
                  | foundContainer # _ \<Rightarrow>
                      (case ds_Containers (d_Spec deployment) of
                         [] \<Rightarrow> None
                       | container # _ \<Rightarrow>
                           Some (c_Image foundContainer \<noteq> c_Image container)))))"

definition reconcileDeployment :: "'w NginxDeploymentReconciler \<Rightarrow> NginxDeployment \<Rightarrow> 'w ctrl_state
    \<Rightarrow> outcome \<times> 'w ctrl_state" where
  "reconcileDeployment r nginxDeploy s =
     (case SetControllerReference nginxDeploy (Scheme r) of
        Inl err \<Rightarrow> (Err err, s)
      | Inr refs \<Rightarrow>
          (let deployment = (desired_deployment nginxDeploy)\<lparr>d_OwnerReferences := refs\<rparr>;
               key = (d_Namespace deployment, d_Name deployment);
               s1 = called (GetDeployment key) s
           in case Get_Deployment (Client r) key (store s) of
                Inl err \<Rightarrow>
                  if IsNotFound err
                  then (case write_call (CreateDeployment deployment)
                               (Create_Deployment (Client r) deployment)
                               (logr (InfoCreatingDeployment (d_Name deployment)) s1) of
                          (res, s2) \<Rightarrow> (outcome_of res, s2))
                  else (Err err, s1)
              | Inr foundDeploy \<Rightarrow>
                  (case needs_update foundDeploy deployment of
                     None \<Rightarrow> (Panic, s1)
                   | Some True \<Rightarrow>
                       (let updated = foundDeploy\<lparr>d_Spec := d_Spec deployment\<rparr>
                        in case write_call (UpdateDeployment updated)
                                  (Update_Deployment (Client r) updated)
                                  (logr (InfoUpdatingDeployment (d_Name deployment)) s1) of
                             (res, s2) \<Rightarrow> (outcome_of res, s2))
                   | Some False \<Rightarrow> (Nil, s1))))"

subsection \<open>reconcileService\<close>

definition reconcileService :: "'w NginxDeploymentReconciler \<Rightarrow> NginxDeployment \<Rightarrow> 'w ctrl_state
    \<Rightarrow> outcome \<times> 'w ctrl_state" where
  "reconcileService r nginxDeploy s =
     (case SetControllerReference nginxDeploy (Scheme r) of
        Inl err \<Rightarrow> (Err err, s)
      | Inr refs \<Rightarrow>
          (let service = (desired_service nginxDeploy)\<lparr>svc_OwnerReferences := refs\<rparr>;
               key = (svc_Namespace service, svc_Name service);
               s1 = called (GetService key) s
           in case Get_Service (Client r) key (store s) of
                Inl err \<Rightarrow>
                  if IsNotFound err
                  then (case write_call (CreateService service)
                               (Create_Service (Client r) service)
                               (logr (InfoCreatingService (svc_Name service)) s1) of
                          (res, s2) \<Rightarrow> (outcome_of res, s2))
                  else (Err err, s1)
              | Inr foundService \<Rightarrow> (Nil, s1)))"

subsection \<open>updateStatus\<close>

text \<open>The status written onto the parent (lines 218 to 225).\<close>

definition projected_status :: "NginxDeployment \<Rightarrow> Deployment \<Rightarrow> NginxDeploymentStatus" where
  "projected_status nginxDeploy deployment =
     \<lparr>AvailableReplicas = d_AvailableReplicas deployment,
      Status =
        (if d_AvailableReplicas deployment = Replicas (nd_Spec nginxDeploy) then ''Ready''
         else ''Available: '' @ show_int (d_AvailableReplicas deployment) @ ''/''
                @ show_int (Replicas (nd_Spec nginxDeploy)))\<rparr>"

definition updateStatus :: "'w NginxDeploymentReconciler \<Rightarrow> NginxDeployment \<Rightarrow> 'w ctrl_state
    \<Rightarrow> outcome \<times> 'w ctrl_state" where
  "updateStatus r nginxDeploy s =
     (let key = (nd_Namespace nginxDeploy, nd_Name nginxDeploy @ ''-deployment'');
          s1 = called (GetDeployment key) s
      in case Get_Deployment (Client r) key (store s) of
           Inl err \<Rightarrow> (Err err, s1)
         | Inr deployment \<Rightarrow>
             (let updated = nginxDeploy\<lparr>nd_Status := projected_status nginxDeploy deployment\<rparr>
              in case write_call (StatusUpdate updated) (Status_Update (Client r) updated) s1 of
                   (res, s2) \<Rightarrow> (outcome_of res, s2)))"

subsection \<open>Reconcile\<close>

definition Reconcile :: "'w NginxDeploymentReconciler \<Rightarrow> NamespacedName \<Rightarrow> 'w ctrl_state
    \<Rightarrow> outcome \<times> 'w ctrl_state" where
  "Reconcile r req s =
     (let s0 = called (GetNginxDeployment req) s
      in case Get_NginxDeployment (Client r) req (store s) of
           Inl err \<Rightarrow>
             if IsNotFound err then (Nil, logr InfoResourceNotFound s0)
             else (Err err, logr (ErrorFailedToGet err) s0)
         | Inr fetched \<Rightarrow>
             (let nginxDeploy = set_defaults fetched
              in case reconcileDeployment r nginxDeploy s0 of
                   (Err err, s1) \<Rightarrow> (Err err, logr (ErrorReconcileDeployment err) s1)
                 | (Panic, s1) \<Rightarrow> (Panic, s1)
                 | (Nil, s1) \<Rightarrow>
                     (case reconcileService r nginxDeploy s1 of
                        (Err err, s2) \<Rightarrow> (Err err, logr (ErrorReconcileService err) s2)
                      | (Panic, s2) \<Rightarrow> (Panic, s2)
                      | (Nil, s2) \<Rightarrow>
                          (case updateStatus r nginxDeploy s2 of
                             (Err err, s3) \<Rightarrow> (Err err, logr (ErrorUpdateStatus err) s3)
                           | (Panic, s3) \<Rightarrow> (Panic, s3)
                           | (Nil, s3) \<Rightarrow> (Nil, logr InfoReconciled s3)))))"

subsection \<open>An in-memory store to run the reconciler on\<close>

text \<open>
  Objects by namespace and name; the first entry of a key is the current one. A read of
  a missing key answers not-found, a create of a present key already-exists, an update
  of a missing key not-found.
\<close>

record cluster =
  cl_nginx :: "(NamespacedName \<times> NginxDeployment) list"
  cl_deployments :: "(NamespacedName \<times> Deployment) list"
  cl_services :: "(NamespacedName \<times> Service) list"

definition lookup :: "(NamespacedName \<times> 'a) list \<Rightarrow> NamespacedName \<Rightarrow> api_error + 'a" where
  "lookup objs key = (case map_of objs key of None \<Rightarrow> Inl NotFound | Some obj \<Rightarrow> Inr obj)"

definition store_client :: "cluster Client" where
  "store_client =
     \<lparr>Get_NginxDeployment = (\<lambda>key c. lookup (cl_nginx c) key),
      Get_Deployment = (\<lambda>key c. lookup (cl_deployments c) key),
      Get_Service = (\<lambda>key c. lookup (cl_services c) key),
      Create_Deployment = (\<lambda>d c.
        let key = (d_Namespace d, d_Name d) in
        if map_of (cl_deployments c) key \<noteq> None then (Some AlreadyExists, c)
        else (None, c\<lparr>cl_deployments := (key, d) # cl_deployments c\<rparr>)),
      Update_Deployment = (\<lambda>d c.
        let key = (d_Namespace d, d_Name d) in
        if map_of (cl_deployments c) key = None then (Some NotFound, c)
        else (None, c\<lparr>cl_deployments := (key, d) # cl_deployments c\<rparr>)),
      Create_Service = (\<lambda>sv c.
        let key = (svc_Namespace sv, svc_Name sv) in
        if map_of (cl_services c) key \<noteq> None then (Some AlreadyExists, c)
        else (None, c\<lparr>cl_services := (key, sv) # cl_services c\<rparr>)),
      Status_Update = (\<lambda>nd c.
        let key = (nd_Namespace nd, nd_Name nd) in
        (case map_of (cl_nginx c) key of
           None \<Rightarrow> (Some NotFound, c)
         | Some old \<Rightarrow>
             (None, c\<lparr>cl_nginx := (key, old\<lparr>nd_Status := nd_Status nd\<rparr>) # cl_nginx c\<rparr>)))\<rparr>"

definition store_reconciler :: "cluster NginxDeploymentReconciler" where
  "store_reconciler = \<lparr>Client = store_client, Scheme = [''NginxDeployment'']\<rparr>"

text \<open>The parent of the specification's scenarios, and a store where it has converged.\<close>

definition web_parent :: NginxDeployment where
  "web_parent =
     \<lparr>nd_Namespace = ''default'', nd_Name = ''web'', nd_UID = ''uid-1'',
      nd_Spec = \<lparr>Replicas = 3, Port = 8080, Image = ''app:v1''\<rparr>,
      nd_Status = \<lparr>AvailableReplicas = 3, Status = ''Ready''\<rparr>\<rparr>"

definition web_owner :: "OwnerReference list" where
  "web_owner =
     [\<lparr>or_Kind = ''NginxDeployment'', or_Name = ''web'', or_UID = ''uid-1'',
       or_Controller = True, or_BlockOwnerDeletion = True\<rparr>]"

definition web_deployment :: "int32 \<Rightarrow> string \<Rightarrow> int32 \<Rightarrow> Deployment" where
  "web_deployment replicas img available =
     (desired_deployment (web_parent\<lparr>nd_Spec := \<lparr>Replicas = replicas, Port = 8080, Image = img\<rparr>\<rparr>))
       \<lparr>d_OwnerReferences := web_owner, d_AvailableReplicas := available\<rparr>"

definition web_service :: Service where
  "web_service = (desired_service web_parent)\<lparr>svc_OwnerReferences := web_owner\<rparr>"

definition web_cluster :: "Deployment list \<Rightarrow> Service list \<Rightarrow> cluster" where
  "web_cluster deployments services =
     \<lparr>cl_nginx = [((''default'', ''web''), web_parent)],
      cl_deployments = map (\<lambda>d. ((d_Namespace d, d_Name d), d)) deployments,
      cl_services = map (\<lambda>sv. ((svc_Namespace sv, svc_Name sv), sv)) services\<rparr>"

definition converged_cluster :: cluster where
  "converged_cluster = web_cluster [web_deployment 3 ''app:v1'' 3] [web_service]"

section \<open>Facts about the healer\<close>

lemma world_klog: "world (klog l s) = world s"
  by (simp add: klog_def)

lemma trace_klog: "trace (klog l s) = trace s @ [Klog l]"
  by (simp add: klog_def)

lemma pod_calls_append: "pod_calls (xs @ ys) = pod_calls xs @ pod_calls ys"
  by (induction xs rule: pod_calls.induct) simp_all

lemma time_Since_gt:
  assumes "minDuration \<le> k" and "k < maxDuration"
  shows "time_Since now t > k \<longleftrightarrow> now - t > k"
  using assms by (auto simp: time_Since_def time_Sub_def Let_def)

lemma fifteen_minutes_in_range: "minDuration \<le> 15 * Minute \<and> 15 * Minute < maxDuration"
  by (simp add: Minute_def minDuration_def maxDuration_def)

lemma ten_minutes_in_range: "minDuration \<le> 10 * Minute \<and> 10 * Minute < maxDuration"
  by (simp add: Minute_def minDuration_def maxDuration_def)

lemma pending_rule: "time_Since now t > 15 * Minute \<longleftrightarrow> now - t > 15 * Minute"
  using fifteen_minutes_in_range by (simp add: time_Since_gt)

lemma not_ready_rule: "time_Since now t > 10 * Minute \<longleftrightarrow> now - t > 10 * Minute"
  using ten_minutes_in_range by (simp add: time_Since_gt)

lemma isPodReady_loop_iff:
  "isPodReady_loop cs \<longleftrightarrow> (\<exists>c \<in> set cs. pc_Type c = PodReady \<and> pc_Status c = ConditionTrue)"
  by (induction cs) auto

lemma notReady_loop_None:
  "notReady_loop now cs = None \<longleftrightarrow>
     \<not> (\<exists>c \<in> set cs. pc_Type c = PodReady \<and> pc_Status c = ConditionFalse
            \<and> now - pc_LastTransitionTime c > 10 * Minute)"
  by (induction cs) (auto simp: not_ready_rule)

lemma notReady_loop_Some:
  "notReady_loop now cs = Some l \<Longrightarrow> \<exists>d. l = NotReadyFor d"
  by (induction cs) (auto split: if_splits)

lemma verdict_notReady_loop:
  "verdict_of (notReady_loop now cs) =
     (if \<exists>c \<in> set cs. pc_Type c = PodReady \<and> pc_Status c = ConditionFalse
            \<and> now - pc_LastTransitionTime c > 10 * Minute
      then StuckNotReady else Healthy)"
proof (cases "notReady_loop now cs")
  case None
  then show ?thesis using notReady_loop_None [of now cs] by simp
next
  case (Some l)
  then obtain d where "l = NotReadyFor d" using notReady_loop_Some by blast
  with Some show ?thesis using notReady_loop_None [of now cs] by auto
qed

lemma crashLoop_loop_Some:
  "crashLoop_loop cs = Some l \<Longrightarrow> verdict_of (Some l) = StuckCrashLoop"
  by (induction cs) (auto split: if_splits)

lemma isPodStuck_classify: "isPodStuck now pod \<longleftrightarrow> classify now pod \<noteq> Healthy"
proof (cases "isPodStuck_line now pod")
  case None
  then show ?thesis by (simp add: isPodStuck_def classify_def)
next
  case (Some l)
  then show ?thesis by (cases l) (simp_all add: isPodStuck_def classify_def)
qed

lemma action_switch_ignore:
  "pod_Annotations pod = Some annotations \<Longrightarrow> annotations action_key = Some ''ignore'' \<Longrightarrow>
   action_switch pod s = (True, klog (InfoSkipping (pod_Namespace pod) (pod_Name pod)) s)"
  by (simp add: action_switch_def)

lemma action_switch_restart:
  "pod_Annotations pod = Some annotations \<Longrightarrow> annotations action_key = Some ''restart'' \<Longrightarrow>
   action_switch pod s = (False, klog (InfoCustomRestart (pod_Namespace pod) (pod_Name pod)) s)"
  by (simp add: action_switch_def)

lemma action_switch_delete:
  "pod_Annotations pod = Some annotations \<Longrightarrow> annotations action_key = Some ''delete'' \<Longrightarrow>
   action_switch pod s = (False, klog (InfoCustomDelete (pod_Namespace pod) (pod_Name pod)) s)"
  by (simp add: action_switch_def)

lemma action_switch_other:
  "pod_Annotations pod = Some annotations \<Longrightarrow> annotations action_key = Some v \<Longrightarrow>
   v \<noteq> ''restart'' \<Longrightarrow> v \<noteq> ''delete'' \<Longrightarrow> v \<noteq> ''ignore'' \<Longrightarrow>
   action_switch pod s = (False, s)"
  by (simp add: action_switch_def)

lemma action_switch_absent:
  "pod_Annotations pod = None \<or> (\<exists>annotations. pod_Annotations pod = Some annotations \<and> annotations action_key = None) \<Longrightarrow>
   action_switch pod s = (False, s)"
  by (auto simp: action_switch_def)

lemma action_switch_world: "world (snd (action_switch pod s)) = world s"
  by (simp add: action_switch_def world_klog split: option.splits)

lemma action_switch_continues:
  assumes "\<not> (\<exists>annotations. pod_Annotations pod = Some annotations
                \<and> annotations action_key = Some ''ignore'')"
  shows "fst (action_switch pod s) = False"
  using assms by (auto simp: action_switch_def split: option.splits)

lemma delete_pod_result:
  "fst (delete_pod h pod s) = fst (pods_Delete h (pod_Namespace pod) (pod_Name pod) (world s))"
  by (simp add: delete_pod_def Let_def split: prod.splits option.splits)

lemma delete_pod_world:
  "world (snd (delete_pod h pod s)) = snd (pods_Delete h (pod_Namespace pod) (pod_Name pod) (world s))"
  by (simp add: delete_pod_def Let_def world_klog split: prod.splits option.splits)

lemma delete_pod_trace:
  "trace (snd (delete_pod h pod s)) =
     trace s @ [PodCall (PodsDelete (pod_Namespace pod) (pod_Name pod)),
                Klog (case fst (pods_Delete h (pod_Namespace pod) (pod_Name pod) (world s)) of
                        Some e \<Rightarrow> ErrorFailedToHeal (pod_Namespace pod) (pod_Name pod) e
                      | None \<Rightarrow> InfoHealed (pod_Namespace pod) (pod_Name pod))]"
  by (simp add: delete_pod_def Let_def trace_klog split: prod.splits option.splits)

section \<open>The healer's claims\<close>

text \<open>
  Claim C3, as amended. For every pod in phase Pending, the classification is StuckPending
  exactly when now minus the creation timestamp is strictly greater than 15 minutes. A
  Pending pod whose age is at most 15 minutes is classified StuckNotReady when it is not
  Ready and one of its conditions of type Ready has had status False for more than 10
  minutes, and Healthy otherwise.
\<close>

theorem classify_pending:
  assumes "pod_Phase pod = PodPending"
  shows "(classify now pod = StuckPending \<longleftrightarrow> now - pod_CreationTimestamp pod > 15 * Minute)
    \<and> (now - pod_CreationTimestamp pod \<le> 15 * Minute \<longrightarrow>
         classify now pod =
           (if \<not> isPodReady pod
               \<and> (\<exists>c \<in> set (pod_Conditions pod).
                     pc_Type c = PodReady \<and> pc_Status c = ConditionFalse
                     \<and> now - pc_LastTransitionTime c > 10 * Minute)
            then StuckNotReady else Healthy))"
  using assms
  by (auto simp: classify_def isPodStuck_line_def pending_rule verdict_notReady_loop)

theorem classify_pending_witness:
  "pod_Phase pending_not_ready_pod = PodPending
   \<and> classify (16 * Minute) pending_not_ready_pod = StuckPending
   \<and> classify (12 * Minute) pending_not_ready_pod = StuckNotReady
   \<and> classify (10 * Minute) pending_not_ready_pod = Healthy"
  using classify_pending [of pending_not_ready_pod "16 * Minute"]
    classify_pending [of pending_not_ready_pod "12 * Minute"]
    classify_pending [of pending_not_ready_pod "10 * Minute"]
  by (simp add: pending_not_ready_pod_def isPodReady_def Minute_def)

text \<open>
  The claim as written fails: a Pending pod 12 minutes old whose Ready condition has been
  False for 11 minutes is within the pending threshold and is not classified Healthy.
\<close>

theorem pending_within_threshold_not_healthy:
  "pod_Phase pending_not_ready_pod = PodPending
   \<and> 12 * Minute - pod_CreationTimestamp pending_not_ready_pod \<le> 15 * Minute
   \<and> isPodStuck (12 * Minute) pending_not_ready_pod
   \<and> classify (12 * Minute) pending_not_ready_pod = StuckNotReady"
  by (simp add: pending_not_ready_pod_def classify_def isPodStuck_def isPodStuck_line_def
      isPodReady_def time_Since_def time_Sub_def Minute_def maxDuration_def minDuration_def)

text \<open>
  Claim C8. A pod with no condition of type Ready (an empty condition list in particular)
  is never classified StuckNotReady; and whenever the classification is StuckNotReady, some
  condition of type Ready with status False has been held for more than 10 minutes.
\<close>

theorem no_ready_condition_never_not_ready:
  "((\<forall>c \<in> set (pod_Conditions pod). pc_Type c \<noteq> PodReady) \<longrightarrow> classify now pod \<noteq> StuckNotReady)
   \<and> (classify now pod = StuckNotReady \<longrightarrow>
        (\<exists>c \<in> set (pod_Conditions pod).
           pc_Type c = PodReady \<and> pc_Status c = ConditionFalse
           \<and> now - pc_LastTransitionTime c > 10 * Minute))"
proof -
  have fires: "\<exists>c \<in> set (pod_Conditions pod).
           pc_Type c = PodReady \<and> pc_Status c = ConditionFalse
           \<and> now - pc_LastTransitionTime c > 10 * Minute"
    if "classify now pod = StuckNotReady"
  proof -
    from that have "verdict_of (notReady_loop now (pod_Conditions pod)) = StuckNotReady"
      by (auto simp: classify_def isPodStuck_line_def split: if_splits option.splits
          dest: crashLoop_loop_Some)
    then show ?thesis
      by (simp add: verdict_notReady_loop split: if_splits)
  qed
  then show ?thesis by blast
qed

theorem no_ready_condition_witness:
  "pc_Type (hd (pod_Conditions pending_not_ready_pod)) = PodReady
   \<and> classify (12 * Minute) pending_not_ready_pod = StuckNotReady
   \<and> (\<exists>c \<in> set (pod_Conditions pending_not_ready_pod).
           pc_Type c = PodReady \<and> pc_Status c = ConditionFalse
           \<and> 12 * Minute - pc_LastTransitionTime c > 10 * Minute)
   \<and> pod_Conditions (crashing_pod ''default'' None) = []
   \<and> classify (12 * Minute) (crashing_pod ''default'' None) \<noteq> StuckNotReady
   \<and> classify (12 * Minute) (pending_not_ready_pod\<lparr>pod_Conditions := []\<rparr>) \<noteq> StuckNotReady"
  using no_ready_condition_never_not_ready [of pending_not_ready_pod "12 * Minute"]
    no_ready_condition_never_not_ready [of "crashing_pod ''default'' None" "12 * Minute"]
    no_ready_condition_never_not_ready [of "pending_not_ready_pod\<lparr>pod_Conditions := []\<rparr>" "12 * Minute"]
  by (simp add: pending_not_ready_pod_def crashing_pod_def classify_def isPodStuck_line_def
      isPodReady_def time_Since_def time_Sub_def Minute_def maxDuration_def minDuration_def)

text \<open>
  Claim C5. For a pod in the namespace kube-system, and for a pod that carries the
  annotation key healing.kubernetes.io/ignore with any value, \<open>handlePod\<close> returns the
  state it was given: nothing is logged, so the pod is not classified as stuck, and no
  delete call is made, whatever the clock and the rest of the pod are.
\<close>

theorem handlePod_prefilter:
  assumes "pod_Namespace pod = ''kube-system''
           \<or> (\<exists>annotations v. pod_Annotations pod = Some annotations \<and> annotations ignore_key = Some v)"
  shows "handlePod h now pod s = s"
  using assms by (auto simp: handlePod_def has_ignore_annotation_def)

theorem handlePod_prefilter_witness:
  "isPodStuck 0 (crashing_pod ''kube-system'' None)
   \<and> handlePod store_healer 0 (crashing_pod ''kube-system'' None)
        \<lparr>world = {(''kube-system'', ''web-2'')}, trace = []\<rparr>
      = \<lparr>world = {(''kube-system'', ''web-2'')}, trace = []\<rparr>
   \<and> isPodStuck 0 (crashing_pod ''default'' (Some [ignore_key \<mapsto> ''no'']))
   \<and> handlePod store_healer 0 (crashing_pod ''default'' (Some [ignore_key \<mapsto> ''no'']))
        \<lparr>world = {(''default'', ''web-2'')}, trace = []\<rparr>
      = \<lparr>world = {(''default'', ''web-2'')}, trace = []\<rparr>"
  using handlePod_prefilter [of "crashing_pod ''kube-system'' None" store_healer 0
      "\<lparr>world = {(''kube-system'', ''web-2'')}, trace = []\<rparr>"]
    handlePod_prefilter [of "crashing_pod ''default'' (Some [ignore_key \<mapsto> ''no''])" store_healer 0
      "\<lparr>world = {(''default'', ''web-2'')}, trace = []\<rparr>"]
  by (simp add: crashing_pod_def isPodStuck_def isPodStuck_line_def)

text \<open>
  Claim C6. For a pod that carries the annotation healing.kubernetes.io/action:
  with the value ignore, \<open>healPod\<close> returns nil, logs the skip and makes no call, the
  store being left as it was; with the value restart or delete, it logs the custom action
  and then makes exactly one call, the deletion of the pod, whose result it returns.
\<close>

theorem healPod_action_annotation:
  assumes "pod_Annotations pod = Some annotations"
  shows "(annotations action_key = Some ''ignore'' \<longrightarrow>
            healPod h pod s =
              (None, s\<lparr>trace := trace s @ [Klog (InfoAttempting (pod_Namespace pod) (pod_Name pod)),
                                           Klog (InfoSkipping (pod_Namespace pod) (pod_Name pod))]\<rparr>))
    \<and> (annotations action_key = Some ''restart'' \<longrightarrow>
            fst (healPod h pod s) = fst (pods_Delete h (pod_Namespace pod) (pod_Name pod) (world s))
          \<and> world (snd (healPod h pod s)) = snd (pods_Delete h (pod_Namespace pod) (pod_Name pod) (world s))
          \<and> trace (snd (healPod h pod s)) =
              trace s @ [Klog (InfoAttempting (pod_Namespace pod) (pod_Name pod)),
                         Klog (InfoCustomRestart (pod_Namespace pod) (pod_Name pod)),
                         PodCall (PodsDelete (pod_Namespace pod) (pod_Name pod)),
                         Klog (case fst (pods_Delete h (pod_Namespace pod) (pod_Name pod) (world s)) of
                                 Some e \<Rightarrow> ErrorFailedToHeal (pod_Namespace pod) (pod_Name pod) e
                               | None \<Rightarrow> InfoHealed (pod_Namespace pod) (pod_Name pod))])
    \<and> (annotations action_key = Some ''delete'' \<longrightarrow>
            fst (healPod h pod s) = fst (pods_Delete h (pod_Namespace pod) (pod_Name pod) (world s))
          \<and> world (snd (healPod h pod s)) = snd (pods_Delete h (pod_Namespace pod) (pod_Name pod) (world s))
          \<and> trace (snd (healPod h pod s)) =
              trace s @ [Klog (InfoAttempting (pod_Namespace pod) (pod_Name pod)),
                         Klog (InfoCustomDelete (pod_Namespace pod) (pod_Name pod)),
                         PodCall (PodsDelete (pod_Namespace pod) (pod_Name pod)),
                         Klog (case fst (pods_Delete h (pod_Namespace pod) (pod_Name pod) (world s)) of
                                 Some e \<Rightarrow> ErrorFailedToHeal (pod_Namespace pod) (pod_Name pod) e
                               | None \<Rightarrow> InfoHealed (pod_Namespace pod) (pod_Name pod))])"
proof (intro conjI impI)
  assume "annotations action_key = Some ''ignore''"
  with assms show "healPod h pod s =
      (None, s\<lparr>trace := trace s @ [Klog (InfoAttempting (pod_Namespace pod) (pod_Name pod)),
                                   Klog (InfoSkipping (pod_Namespace pod) (pod_Name pod))]\<rparr>)"
    by (simp add: healPod_def action_switch_ignore klog_def)
next
  assume a: "annotations action_key = Some ''restart''"
  have sw: "healPod h pod s =
      delete_pod h pod (klog (InfoCustomRestart (pod_Namespace pod) (pod_Name pod))
        (klog (InfoAttempting (pod_Namespace pod) (pod_Name pod)) s))"
    using assms a by (simp add: healPod_def action_switch_restart)
  show "fst (healPod h pod s) = fst (pods_Delete h (pod_Namespace pod) (pod_Name pod) (world s))"
    by (simp add: sw delete_pod_result world_klog)
  show "world (snd (healPod h pod s)) = snd (pods_Delete h (pod_Namespace pod) (pod_Name pod) (world s))"
    by (simp add: sw delete_pod_world world_klog)
  show "trace (snd (healPod h pod s)) =
      trace s @ [Klog (InfoAttempting (pod_Namespace pod) (pod_Name pod)),
                 Klog (InfoCustomRestart (pod_Namespace pod) (pod_Name pod)),
                 PodCall (PodsDelete (pod_Namespace pod) (pod_Name pod)),
                 Klog (case fst (pods_Delete h (pod_Namespace pod) (pod_Name pod) (world s)) of
                         Some e \<Rightarrow> ErrorFailedToHeal (pod_Namespace pod) (pod_Name pod) e
                       | None \<Rightarrow> InfoHealed (pod_Namespace pod) (pod_Name pod))]"
    by (simp add: sw delete_pod_trace world_klog trace_klog)
next
  assume a: "annotations action_key = Some ''delete''"
  have sw: "healPod h pod s =
      delete_pod h pod (klog (InfoCustomDelete (pod_Namespace pod) (pod_Name pod))
        (klog (InfoAttempting (pod_Namespace pod) (pod_Name pod)) s))"
    using assms a by (simp add: healPod_def action_switch_delete)
  show "fst (healPod h pod s) = fst (pods_Delete h (pod_Namespace pod) (pod_Name pod) (world s))"
    by (simp add: sw delete_pod_result world_klog)
  show "world (snd (healPod h pod s)) = snd (pods_Delete h (pod_Namespace pod) (pod_Name pod) (world s))"
    by (simp add: sw delete_pod_world world_klog)
  show "trace (snd (healPod h pod s)) =
      trace s @ [Klog (InfoAttempting (pod_Namespace pod) (pod_Name pod)),
                 Klog (InfoCustomDelete (pod_Namespace pod) (pod_Name pod)),
                 PodCall (PodsDelete (pod_Namespace pod) (pod_Name pod)),
                 Klog (case fst (pods_Delete h (pod_Namespace pod) (pod_Name pod) (world s)) of
                         Some e \<Rightarrow> ErrorFailedToHeal (pod_Namespace pod) (pod_Name pod) e
                       | None \<Rightarrow> InfoHealed (pod_Namespace pod) (pod_Name pod))]"
    by (simp add: sw delete_pod_trace world_klog trace_klog)
qed

theorem healPod_action_annotation_witness:
  "healPod store_healer (crashing_pod ''default'' (Some [action_key \<mapsto> ''ignore'']))
      \<lparr>world = {(''default'', ''web-2'')}, trace = []\<rparr>
     = (None, \<lparr>world = {(''default'', ''web-2'')},
               trace = [Klog (InfoAttempting ''default'' ''web-2''),
                        Klog (InfoSkipping ''default'' ''web-2'')]\<rparr>)
   \<and> healPod store_healer (crashing_pod ''default'' (Some [action_key \<mapsto> ''restart'']))
      \<lparr>world = {(''default'', ''web-2'')}, trace = []\<rparr>
     = (None, \<lparr>world = {},
               trace = [Klog (InfoAttempting ''default'' ''web-2''),
                        Klog (InfoCustomRestart ''default'' ''web-2''),
                        PodCall (PodsDelete ''default'' ''web-2''),
                        Klog (InfoHealed ''default'' ''web-2'')]\<rparr>)
   \<and> trace (snd (healPod store_healer (crashing_pod ''default'' (Some [action_key \<mapsto> ''delete'']))
      \<lparr>world = {(''default'', ''web-2'')}, trace = []\<rparr>))
     = [Klog (InfoAttempting ''default'' ''web-2''),
        Klog (InfoCustomDelete ''default'' ''web-2''),
        PodCall (PodsDelete ''default'' ''web-2''),
        Klog (InfoHealed ''default'' ''web-2'')]"
  using healPod_action_annotation [of "crashing_pod ''default'' (Some [action_key \<mapsto> ''ignore''])"
      "[action_key \<mapsto> ''ignore'']" store_healer "\<lparr>world = {(''default'', ''web-2'')}, trace = []\<rparr>"]
    healPod_action_annotation [of "crashing_pod ''default'' (Some [action_key \<mapsto> ''restart''])"
      "[action_key \<mapsto> ''restart'']" store_healer "\<lparr>world = {(''default'', ''web-2'')}, trace = []\<rparr>"]
    healPod_action_annotation [of "crashing_pod ''default'' (Some [action_key \<mapsto> ''delete''])"
      "[action_key \<mapsto> ''delete'']" store_healer "\<lparr>world = {(''default'', ''web-2'')}, trace = []\<rparr>"]
  by (simp add: crashing_pod_def store_healer_def healPod_def action_switch_def delete_pod_def klog_def)

text \<open>
  Claim C10. For a pod whose annotation healing.kubernetes.io/action has a value other
  than restart, delete and ignore, \<open>healPod\<close> does exactly what it does for the same pod
  without that annotation, and for the same pod with no annotations at all: it makes the
  delete call for the pod. What it returns is what the client's delete of the pod returns,
  the store it leaves is the store that delete leaves, and its trace is the attempt line,
  the one delete call and the line of the outcome, with no line of a custom action.
\<close>

theorem healPod_unknown_action:
  assumes "pod_Annotations pod = Some annotations"
    and "annotations action_key = Some v"
    and "v \<noteq> ''restart''" and "v \<noteq> ''delete''" and "v \<noteq> ''ignore''"
  shows "healPod h pod s = healPod h (pod\<lparr>pod_Annotations := Some (annotations(action_key := None))\<rparr>) s
    \<and> healPod h pod s = healPod h (pod\<lparr>pod_Annotations := None\<rparr>) s
    \<and> pod_calls (trace (snd (healPod h pod s))) =
        pod_calls (trace s) @ [PodsDelete (pod_Namespace pod) (pod_Name pod)]
    \<and> fst (healPod h pod s) = fst (pods_Delete h (pod_Namespace pod) (pod_Name pod) (world s))
    \<and> world (snd (healPod h pod s)) = snd (pods_Delete h (pod_Namespace pod) (pod_Name pod) (world s))
    \<and> trace (snd (healPod h pod s)) =
        trace s @ [Klog (InfoAttempting (pod_Namespace pod) (pod_Name pod)),
                   PodCall (PodsDelete (pod_Namespace pod) (pod_Name pod)),
                   Klog (case fst (pods_Delete h (pod_Namespace pod) (pod_Name pod) (world s)) of
                           Some e \<Rightarrow> ErrorFailedToHeal (pod_Namespace pod) (pod_Name pod) e
                         | None \<Rightarrow> InfoHealed (pod_Namespace pod) (pod_Name pod))]"
proof -
  let ?s1 = "klog (InfoAttempting (pod_Namespace pod) (pod_Name pod)) s"
  have here: "healPod h pod s = delete_pod h pod ?s1"
    using assms by (simp add: healPod_def action_switch_other)
  have same: "delete_pod h (pod\<lparr>pod_Annotations := a\<rparr>) t = delete_pod h pod t" for a t
    by (simp add: delete_pod_def Let_def split: prod.splits option.splits)
  have removed: "healPod h (pod\<lparr>pod_Annotations := Some (annotations(action_key := None))\<rparr>) s
      = delete_pod h pod ?s1"
    by (simp add: healPod_def action_switch_def same)
  have absent: "healPod h (pod\<lparr>pod_Annotations := None\<rparr>) s = delete_pod h pod ?s1"
    by (simp add: healPod_def action_switch_def same)
  have called: "pod_calls (trace (snd (healPod h pod s))) =
      pod_calls (trace s) @ [PodsDelete (pod_Namespace pod) (pod_Name pod)]"
    by (simp add: here delete_pod_trace trace_klog pod_calls_append)
  have result: "fst (healPod h pod s) =
      fst (pods_Delete h (pod_Namespace pod) (pod_Name pod) (world s))"
    by (simp add: here delete_pod_result world_klog)
  have left: "world (snd (healPod h pod s)) =
      snd (pods_Delete h (pod_Namespace pod) (pod_Name pod) (world s))"
    by (simp add: here delete_pod_world world_klog)
  have logged: "trace (snd (healPod h pod s)) =
      trace s @ [Klog (InfoAttempting (pod_Namespace pod) (pod_Name pod)),
                 PodCall (PodsDelete (pod_Namespace pod) (pod_Name pod)),
                 Klog (case fst (pods_Delete h (pod_Namespace pod) (pod_Name pod) (world s)) of
                         Some e \<Rightarrow> ErrorFailedToHeal (pod_Namespace pod) (pod_Name pod) e
                       | None \<Rightarrow> InfoHealed (pod_Namespace pod) (pod_Name pod))]"
    by (simp add: here delete_pod_trace world_klog trace_klog)
  from removed absent have same_runs:
    "healPod h pod s = healPod h (pod\<lparr>pod_Annotations := Some (annotations(action_key := None))\<rparr>) s"
    "healPod h pod s = healPod h (pod\<lparr>pod_Annotations := None\<rparr>) s"
    by (simp_all add: here)
  show ?thesis
    using same_runs called result left logged by (intro conjI)
qed

theorem healPod_unknown_action_witness:
  "healPod store_healer (crashing_pod ''default'' (Some [action_key \<mapsto> ''pause'']))
      \<lparr>world = {(''default'', ''web-2'')}, trace = []\<rparr>
     = healPod store_healer (crashing_pod ''default'' None)
         \<lparr>world = {(''default'', ''web-2'')}, trace = []\<rparr>
   \<and> pod_calls (trace (snd (healPod store_healer (crashing_pod ''default'' (Some [action_key \<mapsto> ''pause'']))
        \<lparr>world = {(''default'', ''web-2'')}, trace = []\<rparr>)))
     = [PodsDelete ''default'' ''web-2'']
   \<and> healPod store_healer (crashing_pod ''default'' (Some [action_key \<mapsto> ''pause'']))
        \<lparr>world = {(''default'', ''web-2'')}, trace = []\<rparr>
     = (None, \<lparr>world = {},
               trace = [Klog (InfoAttempting ''default'' ''web-2''),
                        PodCall (PodsDelete ''default'' ''web-2''),
                        Klog (InfoHealed ''default'' ''web-2'')]\<rparr>)
   \<and> healPod store_healer (crashing_pod ''default'' (Some [action_key \<mapsto> ''pause'']))
        \<lparr>world = {}, trace = []\<rparr>
     = (Some NotFound, \<lparr>world = {},
               trace = [Klog (InfoAttempting ''default'' ''web-2''),
                        PodCall (PodsDelete ''default'' ''web-2''),
                        Klog (ErrorFailedToHeal ''default'' ''web-2'' NotFound)]\<rparr>)"
  using healPod_unknown_action [of "crashing_pod ''default'' (Some [action_key \<mapsto> ''pause''])"
      "[action_key \<mapsto> ''pause'']" "''pause''" store_healer
      "\<lparr>world = {(''default'', ''web-2'')}, trace = []\<rparr>"]
    healPod_unknown_action [of "crashing_pod ''default'' (Some [action_key \<mapsto> ''pause''])"
      "[action_key \<mapsto> ''pause'']" "''pause''" store_healer
      "\<lparr>world = {}, trace = []\<rparr>"]
  by (simp add: crashing_pod_def store_healer_def healPod_def action_switch_def delete_pod_def klog_def)

text \<open>
  Claim C1, as amended. Unless the pod carries the action annotation with the value ignore,
  \<open>healPod\<close> returns exactly what the delete call returns: nil when the delete call
  succeeds, and the error of the delete call otherwise, a not-found error included, which
  it logs as a failure to heal.
\<close>

theorem healPod_returns_delete_result:
  assumes "\<not> (\<exists>annotations. pod_Annotations pod = Some annotations
                \<and> annotations action_key = Some ''ignore'')"
  shows "fst (healPod h pod s) = fst (pods_Delete h (pod_Namespace pod) (pod_Name pod) (world s))
    \<and> last (trace (snd (healPod h pod s))) =
        Klog (case fst (pods_Delete h (pod_Namespace pod) (pod_Name pod) (world s)) of
                Some e \<Rightarrow> ErrorFailedToHeal (pod_Namespace pod) (pod_Name pod) e
              | None \<Rightarrow> InfoHealed (pod_Namespace pod) (pod_Name pod))"
proof -
  let ?s0 = "klog (InfoAttempting (pod_Namespace pod) (pod_Name pod)) s"
  obtain s1 where sw: "action_switch pod ?s0 = (False, s1)"
    using action_switch_continues [OF assms, of ?s0] by (cases "action_switch pod ?s0") simp
  then have w: "world s1 = world s"
    using action_switch_world [of pod ?s0] by (simp add: world_klog)
  have "healPod h pod s = delete_pod h pod s1"
    by (simp add: healPod_def sw)
  then show ?thesis
    by (simp add: delete_pod_result delete_pod_trace w)
qed

theorem healPod_returns_delete_result_witness:
  "fst (healPod store_healer (crashing_pod ''default'' None) \<lparr>world = {}, trace = []\<rparr>)
     = Some NotFound
   \<and> last (trace (snd (healPod store_healer (crashing_pod ''default'' None) \<lparr>world = {}, trace = []\<rparr>)))
     = Klog (ErrorFailedToHeal ''default'' ''web-2'' NotFound)
   \<and> fst (healPod store_healer (crashing_pod ''default'' None)
        \<lparr>world = {(''default'', ''web-2'')}, trace = []\<rparr>) = None"
  using healPod_returns_delete_result [of "crashing_pod ''default'' None" store_healer
      "\<lparr>world = {}, trace = []\<rparr>"]
    healPod_returns_delete_result [of "crashing_pod ''default'' None" store_healer
      "\<lparr>world = {(''default'', ''web-2'')}, trace = []\<rparr>"]
  by (simp add: crashing_pod_def store_healer_def)

text \<open>
  The claim as written fails: when the pod is already absent from the store the delete call
  answers not-found, and \<open>healPod\<close> returns that error and logs the failure.
\<close>

theorem healPod_not_found_is_reported:
  "pods_Delete store_healer ''default'' ''web-2'' {} = (Some NotFound, {})
   \<and> healPod store_healer (crashing_pod ''default'' None) \<lparr>world = {}, trace = []\<rparr>
     = (Some NotFound,
        \<lparr>world = {},
         trace = [Klog (InfoAttempting ''default'' ''web-2''),
                  PodCall (PodsDelete ''default'' ''web-2''),
                  Klog (ErrorFailedToHeal ''default'' ''web-2'' NotFound)]\<rparr>)"
  by (simp add: crashing_pod_def store_healer_def healPod_def action_switch_def delete_pod_def klog_def)

section \<open>Facts about the reconciler\<close>

lemma store_called: "store (called c s) = store s"
  by (simp add: called_def)

lemma events_called: "events (called c s) = events s @ [Call c]"
  by (simp add: called_def)

lemma store_logr: "store (logr l s) = store s"
  by (simp add: logr_def)

lemma events_logr: "events (logr l s) = events s @ [Logr l]"
  by (simp add: logr_def)

lemma calls_append: "calls (xs @ ys) = calls xs @ calls ys"
  by (induction xs rule: calls.induct) simp_all

lemma write_call_result: "fst (write_call c f s) = fst (f (store s))"
  by (simp add: write_call_def split: prod.splits)

lemma write_call_store: "store (snd (write_call c f s)) = snd (f (store s))"
  by (simp add: write_call_def split: prod.splits)

lemma write_call_events: "events (snd (write_call c f s)) = events s @ [Call c]"
  by (simp add: write_call_def split: prod.splits)

lemma SetControllerReference_registered:
  "''NginxDeployment'' \<in> set scheme \<Longrightarrow>
   SetControllerReference owner scheme =
     Inr [\<lparr>or_Kind = ''NginxDeployment'', or_Name = nd_Name owner, or_UID = nd_UID owner,
           or_Controller = True, or_BlockOwnerDeletion = True\<rparr>]"
  by (simp add: SetControllerReference_def)

lemma show_int_examples: "show_int 2 = ''2'' \<and> show_int 3 = ''3'' \<and> show_int 12 = ''12'' \<and> show_int (-7) = ''-7''"
  by (simp add: show_int_def show_nat.simps digit_char_def)

text \<open>What \<open>reconcileDeployment\<close> does once the child has been read.\<close>

lemma reconcileDeployment_found:
  assumes "''NginxDeployment'' \<in> set (Scheme r)"
    and "Get_Deployment (Client r) (nd_Namespace nd, nd_Name nd @ ''-deployment'') (store s) = Inr found"
  shows "reconcileDeployment r nd s =
     (let s1 = called (GetDeployment (nd_Namespace nd, nd_Name nd @ ''-deployment'')) s;
          refs = [\<lparr>or_Kind = ''NginxDeployment'', or_Name = nd_Name nd, or_UID = nd_UID nd,
                   or_Controller = True, or_BlockOwnerDeletion = True\<rparr>];
          deployment = (desired_deployment nd)\<lparr>d_OwnerReferences := refs\<rparr>
      in case needs_update found deployment of
           None \<Rightarrow> (Panic, s1)
         | Some True \<Rightarrow>
             (let updated = found\<lparr>d_Spec := d_Spec (desired_deployment nd)\<rparr>
              in case write_call (UpdateDeployment updated) (Update_Deployment (Client r) updated)
                        (logr (InfoUpdatingDeployment (nd_Name nd @ ''-deployment'')) s1) of
                   (res, s2) \<Rightarrow> (outcome_of res, s2))
         | Some False \<Rightarrow> (Nil, s1))"
  using assms
  by (simp add: reconcileDeployment_def SetControllerReference_registered Let_def desired_deployment_def
      split: option.splits bool.splits)

lemma needs_update_replicas:
  "ds_Replicas (d_Spec found) = Some foundReplicas \<Longrightarrow> foundReplicas \<noteq> Replicas (nd_Spec nd) \<Longrightarrow>
   needs_update found ((desired_deployment nd)\<lparr>d_OwnerReferences := refs\<rparr>) = Some True"
  by (simp add: needs_update_def desired_deployment_def Let_def)

lemma needs_update_image:
  "ds_Replicas (d_Spec found) = Some (Replicas (nd_Spec nd)) \<Longrightarrow>
   ds_Containers (d_Spec found) = foundContainer # others \<Longrightarrow>
   needs_update found ((desired_deployment nd)\<lparr>d_OwnerReferences := refs\<rparr>)
     = Some (c_Image foundContainer \<noteq> Image (nd_Spec nd))"
  by (simp add: needs_update_def desired_deployment_def Let_def)

text \<open>A child read without a replica count makes the comparison panic.\<close>

lemma reconcileDeployment_nil_replicas:
  assumes "''NginxDeployment'' \<in> set (Scheme r)"
    and "Get_Deployment (Client r) (nd_Namespace nd, nd_Name nd @ ''-deployment'') (store s) = Inr found"
    and "ds_Replicas (d_Spec found) = None"
  shows "reconcileDeployment r nd s =
     (Panic, called (GetDeployment (nd_Namespace nd, nd_Name nd @ ''-deployment'')) s)"
  using assms(3)
  by (simp add: reconcileDeployment_found [OF assms(1,2)] needs_update_def)

lemma reconcileDeployment_converged:
  assumes "''NginxDeployment'' \<in> set (Scheme r)"
    and "Get_Deployment (Client r) (nd_Namespace nd, nd_Name nd @ ''-deployment'') (store s) = Inr found"
    and "ds_Replicas (d_Spec found) = Some (Replicas (nd_Spec nd))"
    and "ds_Containers (d_Spec found) = foundContainer # others"
    and "c_Image foundContainer = Image (nd_Spec nd)"
  shows "reconcileDeployment r nd s =
     (Nil, called (GetDeployment (nd_Namespace nd, nd_Name nd @ ''-deployment'')) s)"
  using assms(5)
  by (simp add: reconcileDeployment_found [OF assms(1,2)] needs_update_image [OF assms(3,4)])

lemma reconcileService_found:
  assumes "''NginxDeployment'' \<in> set (Scheme r)"
    and "Get_Service (Client r) (nd_Namespace nd, nd_Name nd @ ''-service'') (store s) = Inr found"
  shows "reconcileService r nd s =
     (Nil, called (GetService (nd_Namespace nd, nd_Name nd @ ''-service'')) s)"
  using assms
  by (simp add: reconcileService_def SetControllerReference_registered Let_def desired_service_def)

lemma reconcileService_error:
  assumes "''NginxDeployment'' \<in> set (Scheme r)"
    and "Get_Service (Client r) (nd_Namespace nd, nd_Name nd @ ''-service'') (store s) = Inl e"
    and "e \<noteq> NotFound"
  shows "reconcileService r nd s =
     (Err e, called (GetService (nd_Namespace nd, nd_Name nd @ ''-service'')) s)"
  using assms
  by (simp add: reconcileService_def SetControllerReference_registered Let_def desired_service_def
      IsNotFound_def)

lemma reconcileService_absent:
  assumes "''NginxDeployment'' \<in> set (Scheme r)"
    and "Get_Service (Client r) (nd_Namespace nd, nd_Name nd @ ''-service'') (store s) = Inl NotFound"
  shows "reconcileService r nd s =
     (let service = (desired_service nd)
            \<lparr>svc_OwnerReferences :=
               [\<lparr>or_Kind = ''NginxDeployment'', or_Name = nd_Name nd, or_UID = nd_UID nd,
                  or_Controller = True, or_BlockOwnerDeletion = True\<rparr>]\<rparr>;
          w = write_call (CreateService service) (Create_Service (Client r) service)
                (logr (InfoCreatingService (nd_Name nd @ ''-service''))
                   (called (GetService (nd_Namespace nd, nd_Name nd @ ''-service'')) s))
      in (outcome_of (fst w), snd w))"
  using assms
  by (simp add: reconcileService_def SetControllerReference_registered Let_def desired_service_def
      IsNotFound_def case_prod_beta)

lemma updateStatus_error:
  assumes "Get_Deployment (Client r) (nd_Namespace nd, nd_Name nd @ ''-deployment'') (store s) = Inl e"
  shows "updateStatus r nd s =
     (Err e, called (GetDeployment (nd_Namespace nd, nd_Name nd @ ''-deployment'')) s)"
  using assms by (simp add: updateStatus_def Let_def)

lemma updateStatus_found:
  assumes "Get_Deployment (Client r) (nd_Namespace nd, nd_Name nd @ ''-deployment'') (store s) = Inr d"
  shows "updateStatus r nd s =
     (let updated = nd\<lparr>nd_Status := projected_status nd d\<rparr>;
          w = write_call (StatusUpdate updated) (Status_Update (Client r) updated)
                (called (GetDeployment (nd_Namespace nd, nd_Name nd @ ''-deployment'')) s)
      in (outcome_of (fst w), snd w))"
  using assms by (simp add: updateStatus_def Let_def case_prod_beta)

lemma calls_events_logr: "calls (events (logr l s)) = calls (events s)"
  by (simp add: events_logr calls_append)

lemma calls_events_called: "calls (events (called c s)) = calls (events s) @ [c]"
  by (simp add: events_called calls_append)

lemma calls_events_write_call: "calls (events (snd (write_call c f s))) = calls (events s) @ [c]"
  by (simp add: write_call_events calls_append)

text \<open>The definitions unfolded to run the reconciler on the in-memory store.\<close>

lemmas run_store =
  store_reconciler_def store_client_def lookup_def converged_cluster_def web_cluster_def
  web_deployment_def web_service_def web_parent_def web_owner_def desired_deployment_def
  desired_service_def set_defaults_def Let_def Reconcile_def reconcileDeployment_def
  reconcileService_def updateStatus_def SetControllerReference_def needs_update_def
  IsNotFound_def called_def logr_def write_call_def projected_status_def

section \<open>The reconciler's claims\<close>

text \<open>
  Claim C4. Let the scheme know the parent's kind and let the workload child be present,
  with a replica count and a first container. \<open>reconcileDeployment\<close> looks at two of
  its fields only, the replica count and the image of the first container. When either
  differs from the parent's Spec it replaces the whole spec of the child read by the
  compiled one and submits exactly one update, whose result it returns; when both are equal
  it makes no write and returns nil.
\<close>

theorem reconcileDeployment_present:
  assumes "''NginxDeployment'' \<in> set (Scheme r)"
    and "Get_Deployment (Client r) (nd_Namespace nd, nd_Name nd @ ''-deployment'') (store s) = Inr found"
    and "ds_Replicas (d_Spec found) = Some foundReplicas"
    and "ds_Containers (d_Spec found) = foundContainer # others"
  shows "(if foundReplicas \<noteq> Replicas (nd_Spec nd) \<or> c_Image foundContainer \<noteq> Image (nd_Spec nd)
          then calls (events (snd (reconcileDeployment r nd s))) =
                 calls (events s) @
                   [GetDeployment (nd_Namespace nd, nd_Name nd @ ''-deployment''),
                    UpdateDeployment (found\<lparr>d_Spec := d_Spec (desired_deployment nd)\<rparr>)]
             \<and> fst (reconcileDeployment r nd s) =
                 outcome_of (fst (Update_Deployment (Client r)
                   (found\<lparr>d_Spec := d_Spec (desired_deployment nd)\<rparr>) (store s)))
             \<and> store (snd (reconcileDeployment r nd s)) =
                 snd (Update_Deployment (Client r)
                   (found\<lparr>d_Spec := d_Spec (desired_deployment nd)\<rparr>) (store s))
          else reconcileDeployment r nd s =
                 (Nil, called (GetDeployment (nd_Namespace nd, nd_Name nd @ ''-deployment'')) s))"
proof (cases "foundReplicas = Replicas (nd_Spec nd)")
  case True
  with assms(3,4) have "needs_update found ((desired_deployment nd)\<lparr>d_OwnerReferences := refs\<rparr>)
      = Some (c_Image foundContainer \<noteq> Image (nd_Spec nd))" for refs
    by (simp add: needs_update_image)
  with True show ?thesis
    by (simp add: reconcileDeployment_found [OF assms(1,2)] Let_def write_call_result
        write_call_store write_call_events events_logr events_called store_logr store_called
        calls_append case_prod_beta)
next
  case False
  with assms(3) have "needs_update found ((desired_deployment nd)\<lparr>d_OwnerReferences := refs\<rparr>)
      = Some True" for refs
    by (simp add: needs_update_replicas)
  with False show ?thesis
    by (simp add: reconcileDeployment_found [OF assms(1,2)] Let_def write_call_result
        write_call_store write_call_events events_logr events_called store_logr store_called
        calls_append case_prod_beta)
qed

theorem reconcileDeployment_present_witness:
  "calls (events (snd (reconcileDeployment store_reconciler web_parent
      \<lparr>store = web_cluster [web_deployment 2 ''app:v1'' 2] [web_service], events = []\<rparr>)))
     = [GetDeployment (''default'', ''web-deployment''),
        UpdateDeployment (web_deployment 3 ''app:v1'' 2)]
   \<and> calls (events (snd (reconcileDeployment store_reconciler web_parent
      \<lparr>store = web_cluster [web_deployment 3 ''app:v0'' 3] [web_service], events = []\<rparr>)))
     = [GetDeployment (''default'', ''web-deployment''),
        UpdateDeployment (web_deployment 3 ''app:v1'' 3)]
   \<and> reconcileDeployment store_reconciler web_parent \<lparr>store = converged_cluster, events = []\<rparr>
     = (Nil, \<lparr>store = converged_cluster,
              events = [Call (GetDeployment (''default'', ''web-deployment''))]\<rparr>)"
  using reconcileDeployment_present [where r = store_reconciler and nd = web_parent
      and s = "\<lparr>store = web_cluster [web_deployment 2 ''app:v1'' 2] [web_service], events = []\<rparr>"
      and found = "web_deployment 2 ''app:v1'' 2" and foundReplicas = 2
      and foundContainer = "hd (ds_Containers (d_Spec (web_deployment 2 ''app:v1'' 2)))"
      and others = "[]"]
    reconcileDeployment_present [where r = store_reconciler and nd = web_parent
      and s = "\<lparr>store = web_cluster [web_deployment 3 ''app:v0'' 3] [web_service], events = []\<rparr>"
      and found = "web_deployment 3 ''app:v0'' 3" and foundReplicas = 3
      and foundContainer = "hd (ds_Containers (d_Spec (web_deployment 3 ''app:v0'' 3)))"
      and others = "[]"]
    reconcileDeployment_present [where r = store_reconciler and nd = web_parent
      and s = "\<lparr>store = converged_cluster, events = []\<rparr>"
      and found = "web_deployment 3 ''app:v1'' 3" and foundReplicas = 3
      and foundContainer = "hd (ds_Containers (d_Spec (web_deployment 3 ''app:v1'' 3)))"
      and others = "[]"]
  by (simp add: store_reconciler_def store_client_def lookup_def converged_cluster_def
      web_cluster_def web_deployment_def web_service_def web_parent_def web_owner_def
      desired_deployment_def desired_service_def Let_def called_def)

text \<open>
  Claim C7. Let the scheme know the parent's kind. When the Service is present,
  \<open>reconcileService\<close> returns nil after the read and makes no write, whatever the
  Service read and the parent's Spec are. When the read answers not-found it makes exactly
  one create, of the compiled Service: it returns what the client's create of that Service
  returns, and the store it leaves is the store that create leaves. On any other error of
  the read it returns the error and makes no write.
\<close>

theorem reconcileService_create_once:
  assumes "''NginxDeployment'' \<in> set (Scheme r)"
  shows "(Get_Service (Client r) (nd_Namespace nd, nd_Name nd @ ''-service'') (store s) = Inr found \<longrightarrow>
            reconcileService r nd s =
              (Nil, called (GetService (nd_Namespace nd, nd_Name nd @ ''-service'')) s))
    \<and> (Get_Service (Client r) (nd_Namespace nd, nd_Name nd @ ''-service'') (store s) = Inl NotFound \<longrightarrow>
            calls (events (snd (reconcileService r nd s))) =
              calls (events s) @
                [GetService (nd_Namespace nd, nd_Name nd @ ''-service''),
                 CreateService ((desired_service nd)
                   \<lparr>svc_OwnerReferences :=
                      [\<lparr>or_Kind = ''NginxDeployment'', or_Name = nd_Name nd, or_UID = nd_UID nd,
                         or_Controller = True, or_BlockOwnerDeletion = True\<rparr>]\<rparr>)]
          \<and> fst (reconcileService r nd s) =
              outcome_of (fst (Create_Service (Client r)
                 ((desired_service nd)
                   \<lparr>svc_OwnerReferences :=
                      [\<lparr>or_Kind = ''NginxDeployment'', or_Name = nd_Name nd, or_UID = nd_UID nd,
                         or_Controller = True, or_BlockOwnerDeletion = True\<rparr>]\<rparr>) (store s)))
          \<and> store (snd (reconcileService r nd s)) =
              snd (Create_Service (Client r)
                 ((desired_service nd)
                   \<lparr>svc_OwnerReferences :=
                      [\<lparr>or_Kind = ''NginxDeployment'', or_Name = nd_Name nd, or_UID = nd_UID nd,
                         or_Controller = True, or_BlockOwnerDeletion = True\<rparr>]\<rparr>) (store s))
          \<and> events (snd (reconcileService r nd s)) =
              events s @
                [Call (GetService (nd_Namespace nd, nd_Name nd @ ''-service'')),
                 Logr (InfoCreatingService (nd_Name nd @ ''-service'')),
                 Call (CreateService ((desired_service nd)
                   \<lparr>svc_OwnerReferences :=
                      [\<lparr>or_Kind = ''NginxDeployment'', or_Name = nd_Name nd, or_UID = nd_UID nd,
                         or_Controller = True, or_BlockOwnerDeletion = True\<rparr>]\<rparr>))])
    \<and> (Get_Service (Client r) (nd_Namespace nd, nd_Name nd @ ''-service'') (store s) = Inl e
          \<and> e \<noteq> NotFound \<longrightarrow>
            reconcileService r nd s =
              (Err e, called (GetService (nd_Namespace nd, nd_Name nd @ ''-service'')) s))"
proof (intro conjI impI)
  assume "Get_Service (Client r) (nd_Namespace nd, nd_Name nd @ ''-service'') (store s) = Inr found"
  then show "reconcileService r nd s =
      (Nil, called (GetService (nd_Namespace nd, nd_Name nd @ ''-service'')) s)"
    by (rule reconcileService_found [OF assms])
next
  assume absent: "Get_Service (Client r) (nd_Namespace nd, nd_Name nd @ ''-service'') (store s) = Inl NotFound"
  show "calls (events (snd (reconcileService r nd s))) =
      calls (events s) @
        [GetService (nd_Namespace nd, nd_Name nd @ ''-service''),
         CreateService ((desired_service nd)
           \<lparr>svc_OwnerReferences :=
              [\<lparr>or_Kind = ''NginxDeployment'', or_Name = nd_Name nd, or_UID = nd_UID nd,
                 or_Controller = True, or_BlockOwnerDeletion = True\<rparr>]\<rparr>)]"
    by (simp add: reconcileService_absent [OF assms absent] Let_def calls_events_write_call
        calls_events_logr calls_events_called)
  show "fst (reconcileService r nd s) =
      outcome_of (fst (Create_Service (Client r)
         ((desired_service nd)
           \<lparr>svc_OwnerReferences :=
              [\<lparr>or_Kind = ''NginxDeployment'', or_Name = nd_Name nd, or_UID = nd_UID nd,
                 or_Controller = True, or_BlockOwnerDeletion = True\<rparr>]\<rparr>) (store s)))"
    by (simp add: reconcileService_absent [OF assms absent] Let_def write_call_result
        store_logr store_called)
  show "store (snd (reconcileService r nd s)) =
      snd (Create_Service (Client r)
         ((desired_service nd)
           \<lparr>svc_OwnerReferences :=
              [\<lparr>or_Kind = ''NginxDeployment'', or_Name = nd_Name nd, or_UID = nd_UID nd,
                 or_Controller = True, or_BlockOwnerDeletion = True\<rparr>]\<rparr>) (store s))"
    by (simp add: reconcileService_absent [OF assms absent] Let_def write_call_store
        store_logr store_called)
  show "events (snd (reconcileService r nd s)) =
      events s @
        [Call (GetService (nd_Namespace nd, nd_Name nd @ ''-service'')),
         Logr (InfoCreatingService (nd_Name nd @ ''-service'')),
         Call (CreateService ((desired_service nd)
           \<lparr>svc_OwnerReferences :=
              [\<lparr>or_Kind = ''NginxDeployment'', or_Name = nd_Name nd, or_UID = nd_UID nd,
                 or_Controller = True, or_BlockOwnerDeletion = True\<rparr>]\<rparr>))]"
    by (simp add: reconcileService_absent [OF assms absent] Let_def write_call_events
        events_logr events_called)
next
  assume "Get_Service (Client r) (nd_Namespace nd, nd_Name nd @ ''-service'') (store s) = Inl e
      \<and> e \<noteq> NotFound"
  then show "reconcileService r nd s =
      (Err e, called (GetService (nd_Namespace nd, nd_Name nd @ ''-service'')) s)"
    by (simp add: reconcileService_error [OF assms])
qed

theorem reconcileService_create_once_witness:
  "Port (nd_Spec web_parent) = 8080
   \<and> reconcileService store_reconciler web_parent
       \<lparr>store = web_cluster []
          [web_service\<lparr>svc_Ports := [\<lparr>sp_Port = 9090, sp_TargetPort = 9090\<rparr>]\<rparr>], events = []\<rparr>
     = (Nil,
        \<lparr>store = web_cluster []
           [web_service\<lparr>svc_Ports := [\<lparr>sp_Port = 9090, sp_TargetPort = 9090\<rparr>]\<rparr>],
         events = [Call (GetService (''default'', ''web-service''))]\<rparr>)
   \<and> calls (events (snd (reconcileService store_reconciler web_parent
        \<lparr>store = web_cluster [] [], events = []\<rparr>)))
     = [GetService (''default'', ''web-service''), CreateService web_service]
   \<and> reconcileService store_reconciler web_parent \<lparr>store = web_cluster [] [], events = []\<rparr>
     = (Nil,
        \<lparr>store = web_cluster [] [web_service],
         events = [Call (GetService (''default'', ''web-service'')),
                   Logr (InfoCreatingService ''web-service''),
                   Call (CreateService web_service)]\<rparr>)"
  using reconcileService_create_once [where r = store_reconciler and nd = web_parent
      and s = "\<lparr>store = web_cluster []
          [web_service\<lparr>svc_Ports := [\<lparr>sp_Port = 9090, sp_TargetPort = 9090\<rparr>]\<rparr>], events = []\<rparr>"
      and found = "web_service\<lparr>svc_Ports := [\<lparr>sp_Port = 9090, sp_TargetPort = 9090\<rparr>]\<rparr>"
      and e = Conflict]
    reconcileService_create_once [where r = store_reconciler and nd = web_parent
      and s = "\<lparr>store = web_cluster [] [], events = []\<rparr>"
      and found = web_service and e = Conflict]
  by (simp add: store_reconciler_def store_client_def lookup_def
      web_cluster_def web_service_def web_parent_def web_owner_def
      desired_service_def Let_def called_def reconcileService_def SetControllerReference_def
      IsNotFound_def write_call_def logr_def)

text \<open>
  Claim C9. When the read of the workload child fails, \<open>updateStatus\<close> returns the error
  and writes nothing. When the child is read, it makes one status update of the parent
  that carries the child's available replica count and the status string: Ready when the
  count equals the Spec's replica count, and Available: X/Y otherwise, X the count observed
  and Y the count wanted; it returns the result of that update.
\<close>

theorem updateStatus_projects:
  "(Get_Deployment (Client r) (nd_Namespace nd, nd_Name nd @ ''-deployment'') (store s) = Inl e \<longrightarrow>
      updateStatus r nd s =
        (Err e, called (GetDeployment (nd_Namespace nd, nd_Name nd @ ''-deployment'')) s))
   \<and> (Get_Deployment (Client r) (nd_Namespace nd, nd_Name nd @ ''-deployment'') (store s) = Inr d \<longrightarrow>
      calls (events (snd (updateStatus r nd s))) =
        calls (events s) @
          [GetDeployment (nd_Namespace nd, nd_Name nd @ ''-deployment''),
           StatusUpdate (nd\<lparr>nd_Status :=
             \<lparr>AvailableReplicas = d_AvailableReplicas d,
              Status = (if d_AvailableReplicas d = Replicas (nd_Spec nd) then ''Ready''
                        else ''Available: '' @ show_int (d_AvailableReplicas d) @ ''/''
                               @ show_int (Replicas (nd_Spec nd)))\<rparr>\<rparr>)]
      \<and> fst (updateStatus r nd s) =
          outcome_of (fst (Status_Update (Client r) (nd\<lparr>nd_Status := projected_status nd d\<rparr>) (store s)))
      \<and> store (snd (updateStatus r nd s)) =
          snd (Status_Update (Client r) (nd\<lparr>nd_Status := projected_status nd d\<rparr>) (store s)))"
proof (intro conjI impI)
  assume "Get_Deployment (Client r) (nd_Namespace nd, nd_Name nd @ ''-deployment'') (store s) = Inl e"
  then show "updateStatus r nd s =
      (Err e, called (GetDeployment (nd_Namespace nd, nd_Name nd @ ''-deployment'')) s)"
    by (rule updateStatus_error)
next
  assume found: "Get_Deployment (Client r) (nd_Namespace nd, nd_Name nd @ ''-deployment'') (store s) = Inr d"
  show "calls (events (snd (updateStatus r nd s))) =
      calls (events s) @
        [GetDeployment (nd_Namespace nd, nd_Name nd @ ''-deployment''),
         StatusUpdate (nd\<lparr>nd_Status :=
           \<lparr>AvailableReplicas = d_AvailableReplicas d,
            Status = (if d_AvailableReplicas d = Replicas (nd_Spec nd) then ''Ready''
                      else ''Available: '' @ show_int (d_AvailableReplicas d) @ ''/''
                             @ show_int (Replicas (nd_Spec nd)))\<rparr>\<rparr>)]"
    by (simp add: updateStatus_found [OF found] Let_def calls_events_write_call
        calls_events_called projected_status_def)
  show "fst (updateStatus r nd s) =
      outcome_of (fst (Status_Update (Client r) (nd\<lparr>nd_Status := projected_status nd d\<rparr>) (store s)))"
    by (simp add: updateStatus_found [OF found] Let_def write_call_result store_called)
  show "store (snd (updateStatus r nd s)) =
      snd (Status_Update (Client r) (nd\<lparr>nd_Status := projected_status nd d\<rparr>) (store s))"
    by (simp add: updateStatus_found [OF found] Let_def write_call_store store_called)
qed

theorem updateStatus_projects_witness:
  "calls (events (snd (updateStatus store_reconciler web_parent
      \<lparr>store = web_cluster [web_deployment 3 ''app:v1'' 2] [web_service], events = []\<rparr>)))
     = [GetDeployment (''default'', ''web-deployment''),
        StatusUpdate (web_parent\<lparr>nd_Status :=
          \<lparr>AvailableReplicas = 2, Status = ''Available: 2/3''\<rparr>\<rparr>)]
   \<and> calls (events (snd (updateStatus store_reconciler web_parent
      \<lparr>store = converged_cluster, events = []\<rparr>)))
     = [GetDeployment (''default'', ''web-deployment''),
        StatusUpdate (web_parent\<lparr>nd_Status := \<lparr>AvailableReplicas = 3, Status = ''Ready''\<rparr>\<rparr>)]
   \<and> fst (updateStatus store_reconciler web_parent \<lparr>store = converged_cluster, events = []\<rparr>) = Nil
   \<and> updateStatus store_reconciler web_parent \<lparr>store = web_cluster [] [], events = []\<rparr>
     = (Err NotFound,
        \<lparr>store = web_cluster [] [],
         events = [Call (GetDeployment (''default'', ''web-deployment''))]\<rparr>)"
  using updateStatus_projects [where r = store_reconciler and nd = web_parent
      and s = "\<lparr>store = web_cluster [web_deployment 3 ''app:v1'' 2] [web_service], events = []\<rparr>"
      and d = "web_deployment 3 ''app:v1'' 2" and e = NotFound]
    updateStatus_projects [where r = store_reconciler and nd = web_parent
      and s = "\<lparr>store = converged_cluster, events = []\<rparr>"
      and d = "web_deployment 3 ''app:v1'' 3" and e = NotFound]
    updateStatus_projects [where r = store_reconciler and nd = web_parent
      and s = "\<lparr>store = web_cluster [] [], events = []\<rparr>"
      and d = "web_deployment 3 ''app:v1'' 3" and e = NotFound]
  by (simp add: store_reconciler_def store_client_def lookup_def converged_cluster_def
      web_cluster_def web_deployment_def web_service_def web_parent_def web_owner_def
      desired_deployment_def desired_service_def Let_def called_def projected_status_def
      show_int_def show_nat.simps digit_char_def)

text \<open>
  Claim C2, as amended. Let the parent be readable, the scheme know its kind, both children
  be present, the workload child have the replica count and the image of the Spec (after
  the defaults) and as many available replicas as the Spec wants. Then \<open>Reconcile\<close>
  creates and updates no child: its calls are four reads and one write, the status update
  of the parent with the available replica count and the status Ready. It returns what the
  client's status update returns, and the store it leaves is the one that update leaves.
\<close>

theorem Reconcile_converged:
  assumes "Get_NginxDeployment (Client r) req (store s) = Inr fetched"
    and "nd = set_defaults fetched"
    and "''NginxDeployment'' \<in> set (Scheme r)"
    and "Get_Deployment (Client r) (nd_Namespace nd, nd_Name nd @ ''-deployment'') (store s) = Inr found"
    and "ds_Replicas (d_Spec found) = Some (Replicas (nd_Spec nd))"
    and "ds_Containers (d_Spec found) = foundContainer # others"
    and "c_Image foundContainer = Image (nd_Spec nd)"
    and "Get_Service (Client r) (nd_Namespace nd, nd_Name nd @ ''-service'') (store s) = Inr foundService"
    and "d_AvailableReplicas found = Replicas (nd_Spec nd)"
  shows "calls (events (snd (Reconcile r req s))) =
      calls (events s) @
        [GetNginxDeployment req,
         GetDeployment (nd_Namespace nd, nd_Name nd @ ''-deployment''),
         GetService (nd_Namespace nd, nd_Name nd @ ''-service''),
         GetDeployment (nd_Namespace nd, nd_Name nd @ ''-deployment''),
         StatusUpdate (nd\<lparr>nd_Status :=
           \<lparr>AvailableReplicas = Replicas (nd_Spec nd), Status = ''Ready''\<rparr>\<rparr>)]
    \<and> filter is_mutating (calls (events (snd (Reconcile r req s)))) =
      filter is_mutating (calls (events s)) @
        [StatusUpdate (nd\<lparr>nd_Status :=
           \<lparr>AvailableReplicas = Replicas (nd_Spec nd), Status = ''Ready''\<rparr>\<rparr>)]
    \<and> fst (Reconcile r req s) =
      outcome_of (fst (Status_Update (Client r) (nd\<lparr>nd_Status :=
           \<lparr>AvailableReplicas = Replicas (nd_Spec nd), Status = ''Ready''\<rparr>\<rparr>) (store s)))
    \<and> store (snd (Reconcile r req s)) =
      snd (Status_Update (Client r) (nd\<lparr>nd_Status :=
           \<lparr>AvailableReplicas = Replicas (nd_Spec nd), Status = ''Ready''\<rparr>\<rparr>) (store s))"
proof -
  let ?s0 = "called (GetNginxDeployment req) s"
  let ?dkey = "(nd_Namespace nd, nd_Name nd @ ''-deployment'')"
  let ?skey = "(nd_Namespace nd, nd_Name nd @ ''-service'')"
  let ?s1 = "called (GetDeployment ?dkey) ?s0"
  let ?s2 = "called (GetService ?skey) ?s1"
  let ?updated = "nd\<lparr>nd_Status := projected_status nd found\<rparr>"
  let ?w = "write_call (StatusUpdate ?updated) (Status_Update (Client r) ?updated)
              (called (GetDeployment ?dkey) ?s2)"
  have d: "reconcileDeployment r nd ?s0 = (Nil, ?s1)"
    using assms(4) by (intro reconcileDeployment_converged [OF assms(3) _ assms(5,6,7)])
      (simp add: store_called)
  have sv: "reconcileService r nd ?s1 = (Nil, ?s2)"
    using assms(8) by (intro reconcileService_found [OF assms(3)]) (simp add: store_called)
  have st: "updateStatus r nd ?s2 = (outcome_of (fst ?w), snd ?w)"
    using assms(4) updateStatus_found [of r nd ?s2 found] by (simp add: store_called Let_def)
  have ready: "projected_status nd found =
      \<lparr>AvailableReplicas = Replicas (nd_Spec nd), Status = ''Ready''\<rparr>"
    using assms(9) by (simp add: projected_status_def)
  have run: "calls (events (snd (Reconcile r req s))) = calls (events (snd ?w))"
    using assms(1) d sv st
    by (cases "fst ?w")
      (simp_all add: Reconcile_def Let_def assms(2) [symmetric] calls_events_logr)
  have all: "calls (events (snd (Reconcile r req s))) =
      calls (events s) @
        [GetNginxDeployment req, GetDeployment ?dkey, GetService ?skey, GetDeployment ?dkey,
         StatusUpdate (nd\<lparr>nd_Status :=
           \<lparr>AvailableReplicas = Replicas (nd_Spec nd), Status = ''Ready''\<rparr>\<rparr>)]"
    by (simp add: run calls_events_write_call calls_events_called ready)
  have res: "fst (Reconcile r req s) = outcome_of (fst ?w)"
    using assms(1) d sv st
    by (cases "fst ?w") (simp_all add: Reconcile_def Let_def assms(2) [symmetric])
  have sto: "store (snd (Reconcile r req s)) = store (snd ?w)"
    using assms(1) d sv st
    by (cases "fst ?w") (simp_all add: Reconcile_def Let_def assms(2) [symmetric] store_logr)
  have returned: "fst (Reconcile r req s) =
      outcome_of (fst (Status_Update (Client r) (nd\<lparr>nd_Status :=
           \<lparr>AvailableReplicas = Replicas (nd_Spec nd), Status = ''Ready''\<rparr>\<rparr>) (store s)))"
    by (simp add: res write_call_result store_called ready)
  have left: "store (snd (Reconcile r req s)) =
      snd (Status_Update (Client r) (nd\<lparr>nd_Status :=
           \<lparr>AvailableReplicas = Replicas (nd_Spec nd), Status = ''Ready''\<rparr>\<rparr>) (store s))"
    by (simp add: sto write_call_store store_called ready)
  from all have mutating: "filter is_mutating (calls (events (snd (Reconcile r req s)))) =
      filter is_mutating (calls (events s)) @
        [StatusUpdate (nd\<lparr>nd_Status :=
           \<lparr>AvailableReplicas = Replicas (nd_Spec nd), Status = ''Ready''\<rparr>\<rparr>)]"
    by simp
  show ?thesis
    using all mutating returned left by (intro conjI)
qed

theorem Reconcile_converged_witness:
  "calls (events (snd (Reconcile store_reconciler (''default'', ''web'')
      \<lparr>store = converged_cluster, events = []\<rparr>)))
     = [GetNginxDeployment (''default'', ''web''),
        GetDeployment (''default'', ''web-deployment''),
        GetService (''default'', ''web-service''),
        GetDeployment (''default'', ''web-deployment''),
        StatusUpdate web_parent]
   \<and> filter is_mutating (calls (events (snd (Reconcile store_reconciler (''default'', ''web'')
        \<lparr>store = converged_cluster, events = []\<rparr>))))
     = [StatusUpdate web_parent]
   \<and> fst (Reconcile store_reconciler (''default'', ''web'')
        \<lparr>store = converged_cluster, events = []\<rparr>) = Nil
   \<and> cl_deployments (store (snd (Reconcile store_reconciler (''default'', ''web'')
        \<lparr>store = converged_cluster, events = []\<rparr>))) = cl_deployments converged_cluster
   \<and> cl_services (store (snd (Reconcile store_reconciler (''default'', ''web'')
        \<lparr>store = converged_cluster, events = []\<rparr>))) = cl_services converged_cluster"
  using Reconcile_converged [where r = store_reconciler and req = "(''default'', ''web'')"
      and s = "\<lparr>store = converged_cluster, events = []\<rparr>" and fetched = web_parent
      and nd = web_parent and found = "web_deployment 3 ''app:v1'' 3"
      and foundContainer = "hd (ds_Containers (d_Spec (web_deployment 3 ''app:v1'' 3)))"
      and others = "[]" and foundService = web_service]
  by (simp add: store_reconciler_def store_client_def lookup_def converged_cluster_def
      web_cluster_def web_deployment_def web_service_def web_parent_def web_owner_def
      desired_deployment_def desired_service_def set_defaults_def Let_def)

text \<open>
  The claim as written fails: on a store where the parent has converged, and even its
  status is already Ready, \<open>Reconcile\<close> makes a mutating call, the status update.
\<close>

theorem Reconcile_converged_updates_status:
  "Get_Deployment store_client (''default'', ''web-deployment'') converged_cluster
     = Inr (web_deployment 3 ''app:v1'' 3)
   \<and> d_Spec (web_deployment 3 ''app:v1'' 3) = d_Spec (desired_deployment web_parent)
   \<and> d_AvailableReplicas (web_deployment 3 ''app:v1'' 3) = Replicas (nd_Spec web_parent)
   \<and> Get_Service store_client (''default'', ''web-service'') converged_cluster = Inr web_service
   \<and> svc_Ports web_service = svc_Ports (desired_service web_parent)
   \<and> filter is_mutating (calls (events (snd (Reconcile store_reconciler (''default'', ''web'')
        \<lparr>store = converged_cluster, events = []\<rparr>))))
     = [StatusUpdate web_parent]"
  by (simp add: run_store)

end
